theory Spec2Isabelle
  imports Main "HOL-Library.Word"
begin

section \<open>C strings and the GLib string helpers\<close>

text \<open>
  A \<^verbatim>\<open>gchar *\<close> is modelled as a \<^typ>\<open>string\<close>: the bytes before the terminating NUL.
  A NULL pointer is \<^term>\<open>None\<close> of \<^typ>\<open>string option\<close>. A list that is a C string holds
  no NUL byte.
\<close>

definition c_string :: "string \<Rightarrow> bool" where
  "c_string s = (CHR 0x00 \<notin> set s)"

text \<open>
  GLib's \<^verbatim>\<open>gstrfuncs.c\<close>:
  \<^verbatim>\<open>#define ISUPPER(c) ((c) >= 'A' && (c) <= 'Z')\<close>,
  \<^verbatim>\<open>#define TOLOWER(c) (ISUPPER (c) ? (c) - 'A' + 'a' : (c))\<close>.
\<close>

definition ISUPPER :: "char \<Rightarrow> bool" where
  "ISUPPER c = ((of_char (CHR ''A'') :: nat) \<le> of_char c \<and> (of_char c :: nat) \<le> of_char (CHR ''Z''))"

definition TOLOWER :: "char \<Rightarrow> char" where
  "TOLOWER c =
     (if ISUPPER c then char_of ((of_char c :: nat) - of_char (CHR ''A'') + of_char (CHR ''a''))
      else c)"

text \<open>
  \<^verbatim>\<open>g_ascii_strcasecmp (s1, s2)\<close>: while both strings have a byte left, the lowered bytes
  are compared as unsigned values and the first difference is returned; at the end of
  either string the difference of the current bytes (NUL for the finished string) is
  returned.
\<close>

fun g_ascii_strcasecmp :: "string \<Rightarrow> string \<Rightarrow> int" where
  "g_ascii_strcasecmp (x # xs) (y # ys) =
     (let c1 = int (of_char (TOLOWER x)); c2 = int (of_char (TOLOWER y))
      in if c1 \<noteq> c2 then c1 - c2 else g_ascii_strcasecmp xs ys)"
| "g_ascii_strcasecmp (x # xs) [] = int (of_char x) - 0"
| "g_ascii_strcasecmp [] (y # ys) = 0 - int (of_char y)"
| "g_ascii_strcasecmp [] [] = 0"

section \<open>JSON nodes as json-glib hands them to the daemon\<close>

text \<open>
  A parsed document is a tree of nodes. A number is kept as its literal: the daemon never
  reads one. The members of an object are stored under distinct names. A NULL
  \<^verbatim>\<open>JsonNode *\<close>, \<^verbatim>\<open>JsonObject *\<close> or \<^verbatim>\<open>JsonArray *\<close> is \<^term>\<open>None\<close>.
\<close>

datatype json =
    JNull
  | JBool bool
  | JNum string
  | JStr string
  | JArr "json list"
  | JObj "(string \<times> json) list"

type_synonym JsonObject = "(string \<times> json) list"

type_synonym JsonArray = "json list"

text \<open>
  The json-glib accessors check their argument and return NULL (after a warning of the
  library's own) when the node is not of the kind asked for:
  \<^verbatim>\<open>json_node_get_object\<close> on a node that holds no object,
  \<^verbatim>\<open>json_array_get_object_element\<close> on an element that is no object, and
  \<^verbatim>\<open>json_object_get_string_member\<close> on a NULL object, on a member that is absent or
  null, and on a member whose value is not a string.
\<close>

definition JSON_NODE_HOLDS_ARRAY :: "json option \<Rightarrow> bool" where
  "JSON_NODE_HOLDS_ARRAY node = (case node of Some (JArr a) \<Rightarrow> True | _ \<Rightarrow> False)"

definition json_node_get_array :: "json option \<Rightarrow> JsonArray option" where
  "json_node_get_array node = (case node of Some (JArr a) \<Rightarrow> Some a | _ \<Rightarrow> None)"

definition json_node_get_object :: "json option \<Rightarrow> JsonObject option" where
  "json_node_get_object node = (case node of Some (JObj ob) \<Rightarrow> Some ob | _ \<Rightarrow> None)"

definition json_array_get_length :: "JsonArray \<Rightarrow> nat" where
  "json_array_get_length array = length array"

definition json_array_get_object_element :: "JsonArray \<Rightarrow> nat \<Rightarrow> JsonObject option" where
  "json_array_get_object_element array index =
     (if index < length array
      then (case array ! index of JObj ob \<Rightarrow> Some ob | _ \<Rightarrow> None)
      else None)"

definition json_object_get_string_member :: "JsonObject option \<Rightarrow> string \<Rightarrow> string option" where
  "json_object_get_string_member object member_name =
     (case object of
        None \<Rightarrow> None
      | Some members \<Rightarrow>
          (case map_of members member_name of Some (JStr v) \<Rightarrow> Some v | _ \<Rightarrow> None))"

section \<open>The platform around the daemon\<close>

datatype mlsvc_json_type_e = MLSVC_JSON_MODEL | MLSVC_JSON_PIPELINE | MLSVC_JSON_RESOURCE

datatype package_manager_event_type_e =
    PACKAGE_MANAGER_EVENT_TYPE_INSTALL
  | PACKAGE_MANAGER_EVENT_TYPE_UNINSTALL
  | PACKAGE_MANAGER_EVENT_TYPE_UPDATE
  | PACKAGE_MANAGER_EVENT_TYPE_MOVE
  | PACKAGE_MANAGER_EVENT_TYPE_CLEAR
  | PACKAGE_MANAGER_EVENT_TYPE_RES_COPY
  | PACKAGE_MANAGER_EVENT_TYPE_RES_CREATE_DIR
  | PACKAGE_MANAGER_EVENT_TYPE_RES_REMOVE
  | PACKAGE_MANAGER_EVENT_TYPE_RES_UNINSTALL

datatype package_manager_event_state_e =
    PACKAGE_MANAGER_EVENT_STATE_STARTED
  | PACKAGE_MANAGER_EVENT_STATE_PROCESSING
  | PACKAGE_MANAGER_EVENT_STATE_COMPLETED
  | PACKAGE_MANAGER_EVENT_STATE_FAILED

definition PACKAGE_MANAGER_ERROR_NONE :: int where
  "PACKAGE_MANAGER_ERROR_NONE = 0"

datatype GFileTest = G_FILE_TEST_IS_REGULAR | G_FILE_TEST_IS_DIR | G_FILE_TEST_EXISTS

datatype log_level = LOG_INFO | LOG_WARN | LOG_ERROR

datatype log_arg =
    ArgS string
  | ArgD int
  | ArgU "32 word"
  | ArgType package_manager_event_type_e
  | ArgState package_manager_event_state_e

text \<open>
  Every call that leaves the daemon is recorded, in order: a log line (\<^verbatim>\<open>ml_logi\<close>,
  \<^verbatim>\<open>ml_logw\<close>, \<^verbatim>\<open>ml_loge\<close> with the format string and its arguments), a look at the
  file system, a query of the package manager, and a call of the registry
  (\<^verbatim>\<open>service-db-util.h\<close>).
\<close>

datatype action =
    Log log_level string "log_arg list"
  | G_file_test string "GFileTest set"
  | Json_parser_load_from_file string
  | G_dir_open string
  | Package_info_create string
  | Package_info_get_res_type "nat option"
  | Package_info_get_res_version "nat option"
  | Package_info_destroy "nat option"
  | Svcdb_model_delete string "32 word"
  | Svcdb_model_add string string bool string string
  | Svcdb_pipeline_set string string
  | Svcdb_resource_delete string
  | Svcdb_resource_add string string string string

text \<open>
  The functions the daemon calls and whose code is outside \<^verbatim>\<open>pkg-mgr.cc\<close> are the
  fields of a record: GLib's path join, what the file system answers (\<^verbatim>\<open>access\<close>,
  \<^verbatim>\<open>stat\<close>, the outcome of loading and parsing a file, the names in a directory, NULL
  when it cannot be opened), Tizen's package information (a return code and the value
  written through the out parameter; a handle is \<^typ>\<open>nat option\<close>), json-glib's
  generator, and the registry over its own state \<^typ>\<open>'s\<close> (the return code, for
  \<^verbatim>\<open>svcdb_model_add\<close> also the version written through the out parameter, and the
  registry afterwards).
\<close>

record 's world =
  g_build_filename :: "string \<Rightarrow> string \<Rightarrow> string"
  access_F_OK :: "string \<Rightarrow> bool"
  stat_S_ISREG :: "string \<Rightarrow> bool"
  stat_S_ISDIR :: "string \<Rightarrow> bool"
  json_parser_load_from_file :: "string \<Rightarrow> string + json option"
  g_dir_read_names :: "string \<Rightarrow> string list option"
  package_info_create :: "string \<Rightarrow> int \<times> nat option"
  package_info_get_res_type :: "nat option \<Rightarrow> int \<times> string"
  package_info_get_res_version :: "nat option \<Rightarrow> int \<times> string"
  package_info_destroy :: "nat option \<Rightarrow> int"
  json_generator_to_data :: "json \<Rightarrow> string"
  svcdb_model_delete :: "string \<Rightarrow> 32 word \<Rightarrow> 's \<Rightarrow> int \<times> 's"
  svcdb_model_add :: "string \<Rightarrow> string \<Rightarrow> bool \<Rightarrow> string \<Rightarrow> string \<Rightarrow> 's \<Rightarrow> (int \<times> 32 word) \<times> 's"
  svcdb_pipeline_set :: "string \<Rightarrow> string \<Rightarrow> 's \<Rightarrow> int \<times> 's"
  svcdb_resource_delete :: "string \<Rightarrow> 's \<Rightarrow> int \<times> 's"
  svcdb_resource_add :: "string \<Rightarrow> string \<Rightarrow> string \<Rightarrow> string \<Rightarrow> 's \<Rightarrow> int \<times> 's"

text \<open>
  \<^verbatim>\<open>g_file_test (filename, test)\<close> is true when any of the tests of the bit field is
  true (GLib reference manual, and the sequence of early returns of
  \<^verbatim>\<open>gfileutils.c\<close>).
\<close>

definition g_file_test :: "'s world \<Rightarrow> string \<Rightarrow> GFileTest set \<Rightarrow> bool" where
  "g_file_test w filename test =
     ((G_FILE_TEST_EXISTS \<in> test \<and> access_F_OK w filename)
      \<or> (G_FILE_TEST_IS_REGULAR \<in> test \<and> stat_S_ISREG w filename)
      \<or> (G_FILE_TEST_IS_DIR \<in> test \<and> stat_S_ISDIR w filename))"

section \<open>The state the handler runs on\<close>

record 's state =
  registry :: 's
  trace :: "action list"

definition emit :: "action \<Rightarrow> 's state \<Rightarrow> 's state" where
  "emit a s = s\<lparr>trace := trace s @ [a]\<rparr>"

definition ml_logi :: "string \<Rightarrow> log_arg list \<Rightarrow> 's state \<Rightarrow> 's state" where
  "ml_logi fmt args s = emit (Log LOG_INFO fmt args) s"

definition ml_logw :: "string \<Rightarrow> log_arg list \<Rightarrow> 's state \<Rightarrow> 's state" where
  "ml_logw fmt args s = emit (Log LOG_WARN fmt args) s"

definition ml_loge :: "string \<Rightarrow> log_arg list \<Rightarrow> 's state \<Rightarrow> 's state" where
  "ml_loge fmt args s = emit (Log LOG_ERROR fmt args) s"

text \<open>A registry call: recorded, run on the registry, its return value handed back.\<close>

definition call_svcdb_model_delete ::
  "'s world \<Rightarrow> string \<Rightarrow> 32 word \<Rightarrow> 's state \<Rightarrow> int \<times> 's state" where
  "call_svcdb_model_delete w name version s =
     (let (ret, db) = svcdb_model_delete w name version (registry s)
      in (ret, emit (Svcdb_model_delete name version) (s\<lparr>registry := db\<rparr>)))"

definition call_svcdb_model_add ::
  "'s world \<Rightarrow> string \<Rightarrow> string \<Rightarrow> bool \<Rightarrow> string \<Rightarrow> string \<Rightarrow> 's state
   \<Rightarrow> (int \<times> 32 word) \<times> 's state" where
  "call_svcdb_model_add w name model active desc app_info s =
     (let (rv, db) = svcdb_model_add w name model active desc app_info (registry s)
      in (rv, emit (Svcdb_model_add name model active desc app_info) (s\<lparr>registry := db\<rparr>)))"

definition call_svcdb_pipeline_set ::
  "'s world \<Rightarrow> string \<Rightarrow> string \<Rightarrow> 's state \<Rightarrow> int \<times> 's state" where
  "call_svcdb_pipeline_set w name desc s =
     (let (ret, db) = svcdb_pipeline_set w name desc (registry s)
      in (ret, emit (Svcdb_pipeline_set name desc) (s\<lparr>registry := db\<rparr>)))"

definition call_svcdb_resource_delete ::
  "'s world \<Rightarrow> string \<Rightarrow> 's state \<Rightarrow> int \<times> 's state" where
  "call_svcdb_resource_delete w name s =
     (let (ret, db) = svcdb_resource_delete w name (registry s)
      in (ret, emit (Svcdb_resource_delete name) (s\<lparr>registry := db\<rparr>)))"

definition call_svcdb_resource_add ::
  "'s world \<Rightarrow> string \<Rightarrow> string \<Rightarrow> string \<Rightarrow> string \<Rightarrow> 's state \<Rightarrow> int \<times> 's state" where
  "call_svcdb_resource_add w name path desc app_info s =
     (let (ret, db) = svcdb_resource_add w name path desc app_info (registry s)
      in (ret, emit (Svcdb_resource_add name path desc app_info) (s\<lparr>registry := db\<rparr>)))"

section \<open>\<^verbatim>\<open>_get_app_info\<close>\<close>

text \<open>
  The node the builder holds after \<^verbatim>\<open>json_builder_end_object\<close>: the four members in the
  order they were added.
\<close>

definition app_info_root :: "string \<Rightarrow> string \<Rightarrow> string \<Rightarrow> json" where
  "app_info_root package_name res_type res_version =
     JObj [(''is_rpk'', JStr ''T''),
           (''app_id'', JStr package_name),
           (''res_type'', JStr res_type),
           (''res_version'', JStr res_version)]"

definition get_app_info :: "'s world \<Rightarrow> string \<Rightarrow> string \<Rightarrow> string \<Rightarrow> string" where
  "get_app_info w package_name res_type res_version =
     json_generator_to_data w (app_info_root package_name res_type res_version)"

section \<open>\<^verbatim>\<open>_parse_json\<close>\<close>

text \<open>
  The first switch: the descriptor's file name for the kind. The \<^verbatim>\<open>default\<close> cases of
  the two switches are for a value that is none of the three kinds; the callback passes
  the three kinds only, and the datatype has no other value.
\<close>

fun json_file_name :: "mlsvc_json_type_e \<Rightarrow> string" where
  "json_file_name MLSVC_JSON_MODEL = ''model_description.json''"
| "json_file_name MLSVC_JSON_PIPELINE = ''pipeline_description.json''"
| "json_file_name MLSVC_JSON_RESOURCE = ''resource_description.json''"

text \<open>\<^verbatim>\<open>(flag && g_ascii_strcasecmp (flag, "true") == 0)\<close>, for "activate" and "clear".\<close>

definition is_true_flag :: "string option \<Rightarrow> bool" where
  "is_true_flag flag =
     (case flag of None \<Rightarrow> False | Some v \<Rightarrow> g_ascii_strcasecmp v ''true'' = 0)"

text \<open>\<^verbatim>\<open>desc ? desc : ""\<close> and \<^verbatim>\<open>app_info ? app_info : ""\<close>.\<close>

definition or_empty :: "string option \<Rightarrow> string" where
  "or_empty p = (case p of None \<Rightarrow> [] | Some v \<Rightarrow> v)"

text \<open>The body of the loop, one definition for each case of the second switch.\<close>

definition parse_json_model ::
  "'s world \<Rightarrow> string \<Rightarrow> string option \<Rightarrow> JsonObject option \<Rightarrow> 's state \<Rightarrow> 's state" where
  "parse_json_model w json_file app_info object s =
     (let name = json_object_get_string_member object ''name'';
          model = json_object_get_string_member object ''model'';
          desc = json_object_get_string_member object ''description'';
          activate = json_object_get_string_member object ''activate'';
          clear = json_object_get_string_member object ''clear''
      in case (name, model) of
           (Some name', Some model') \<Rightarrow>
             (let active = is_true_flag activate;
                  clear_old = is_true_flag clear;
                  s1 = (if clear_old then snd (call_svcdb_model_delete w name' 0 s) else s);
                  ((ret, version), s2) =
                     call_svcdb_model_add w name' model' active (or_empty desc)
                       (or_empty app_info) s1
              in if ret = 0
                 then ml_logi ''The model with name '%s' is registered as version '%u'.''
                        [ArgS name', ArgU version] s2
                 else ml_loge ''Failed to register the model with name '%s'.'' [ArgS name'] s2)
         | _ \<Rightarrow> ml_loge ''Failed to get name or model from json file '%s'.'' [ArgS json_file] s)"

definition parse_json_pipeline ::
  "'s world \<Rightarrow> string \<Rightarrow> JsonObject option \<Rightarrow> 's state \<Rightarrow> 's state" where
  "parse_json_pipeline w json_file object s =
     (let name = json_object_get_string_member object ''name'';
          desc = json_object_get_string_member object ''description''
      in case (name, desc) of
           (Some name', Some desc') \<Rightarrow>
             (let (ret, s1) = call_svcdb_pipeline_set w name' desc' s
              in if ret = 0
                 then ml_logi ''The pipeline description with name '%s' is registered.''
                        [ArgS name'] s1
                 else ml_loge ''Failed to register pipeline with name '%s'.'' [ArgS name'] s1)
         | _ \<Rightarrow>
             ml_loge ''Failed to get name or description from json file '%s'.''
               [ArgS json_file] s)"

definition parse_json_resource ::
  "'s world \<Rightarrow> string \<Rightarrow> string option \<Rightarrow> JsonObject option \<Rightarrow> 's state \<Rightarrow> 's state" where
  "parse_json_resource w json_file app_info object s =
     (let name = json_object_get_string_member object ''name'';
          path = json_object_get_string_member object ''path'';
          desc = json_object_get_string_member object ''description'';
          clear = json_object_get_string_member object ''clear''
      in case (name, path) of
           (Some name', Some path') \<Rightarrow>
             (let clear_old = is_true_flag clear;
                  s1 = (if clear_old then snd (call_svcdb_resource_delete w name' s) else s);
                  (ret, s2) =
                     call_svcdb_resource_add w name' path' (or_empty desc) (or_empty app_info) s1
              in if ret = 0
                 then ml_logi ''The resource with name '%s' is registered.'' [ArgS name'] s2
                 else ml_loge ''Failed to register the resource with name '%s'.''
                        [ArgS name'] s2)
         | _ \<Rightarrow> ml_loge ''Failed to get name or path from json file '%s'.'' [ArgS json_file] s)"

fun parse_json_object ::
  "'s world \<Rightarrow> string \<Rightarrow> mlsvc_json_type_e \<Rightarrow> string option \<Rightarrow> JsonObject option
   \<Rightarrow> 's state \<Rightarrow> 's state" where
  "parse_json_object w json_file MLSVC_JSON_MODEL app_info object s =
     parse_json_model w json_file app_info object s"
| "parse_json_object w json_file MLSVC_JSON_PIPELINE app_info object s =
     parse_json_pipeline w json_file object s"
| "parse_json_object w json_file MLSVC_JSON_RESOURCE app_info object s =
     parse_json_resource w json_file app_info object s"

text \<open>
  \<^verbatim>\<open>for (guint i = 0; i < json_len; ++i)\<close>: the object of the turn is the array's
  element when the root held an array, the root's object otherwise.
\<close>

function parse_json_loop ::
  "'s world \<Rightarrow> string \<Rightarrow> mlsvc_json_type_e \<Rightarrow> string option \<Rightarrow> json option
   \<Rightarrow> JsonArray option \<Rightarrow> nat \<Rightarrow> nat \<Rightarrow> 's state \<Rightarrow> 's state" where
  "parse_json_loop w json_file json_type app_info root array i json_len s =
     (if i < json_len
      then (let object = (case array of
                            Some a \<Rightarrow> json_array_get_object_element a i
                          | None \<Rightarrow> json_node_get_object root)
            in parse_json_loop w json_file json_type app_info root array (Suc i) json_len
                 (parse_json_object w json_file json_type app_info object s))
      else s)"
  by pat_completeness auto
termination
  by (relation "measure (\<lambda>(w, json_file, json_type, app_info, root, array, i, json_len, s). json_len - i)")
    auto

declare parse_json_loop.simps [simp del]

definition parse_json ::
  "'s world \<Rightarrow> string \<Rightarrow> mlsvc_json_type_e \<Rightarrow> string option \<Rightarrow> 's state \<Rightarrow> 's state" where
  "parse_json w json_path json_type app_info s =
     (let json_file = g_build_filename w json_path (json_file_name json_type);
          s1 = emit (G_file_test json_file {G_FILE_TEST_EXISTS, G_FILE_TEST_IS_REGULAR}) s
      in if \<not> g_file_test w json_file {G_FILE_TEST_EXISTS, G_FILE_TEST_IS_REGULAR}
         then ml_logw
                ''Failed to find json file '%s'. RPK using ML Service API should provide this json file.''
                [ArgS json_file] s1
         else (let s2 = emit (Json_parser_load_from_file json_file) s1
               in case json_parser_load_from_file w json_file of
                    Inl err \<Rightarrow>
                      ml_loge ''Failed to parse json file '%s': %s'' [ArgS json_file, ArgS err] s2
                  | Inr root \<Rightarrow>
                      (if JSON_NODE_HOLDS_ARRAY root
                       then (case json_node_get_array root of
                               None \<Rightarrow>
                                 ml_loge (''Failed to get root array from json file '%s'' @ [CHR 0x27])
                                   [ArgS json_file] s2
                             | Some array \<Rightarrow>
                                 parse_json_loop w json_file json_type app_info root (Some array) 0
                                   (json_array_get_length array) s2)
                       else parse_json_loop w json_file json_type app_info root None 0 1 s2)))"

section \<open>\<^verbatim>\<open>_pkg_mgr_echo_pkg_path_info\<close>\<close>

text \<open>
  The \<^verbatim>\<open>while\<close> loop reads the names of the directory one after the other until
  \<^verbatim>\<open>g_dir_read_name\<close> returns NULL: a fold over the names.
\<close>

definition pkg_mgr_echo_pkg_path_info :: "'s world \<Rightarrow> string \<Rightarrow> 's state \<Rightarrow> 's state" where
  "pkg_mgr_echo_pkg_path_info w pkg_path s =
     (let s1 = emit (G_file_test pkg_path {G_FILE_TEST_IS_DIR}) s
      in if g_file_test w pkg_path {G_FILE_TEST_IS_DIR}
         then (let s2 = ml_logi ''package path: %s'' [ArgS pkg_path] s1;
                   s3 = emit (G_dir_open pkg_path) s2
               in case g_dir_read_names w pkg_path of
                    None \<Rightarrow> s3
                  | Some names \<Rightarrow>
                      fold (\<lambda>file_name. ml_logi ''- file: %s'' [ArgS file_name]) names s3)
         else s1)"

section \<open>\<^verbatim>\<open>_pkg_mgr_event_cb\<close>\<close>

text \<open>
  \<^verbatim>\<open>ret = package_info_destroy (pkg_info); if (ret != PACKAGE_MANAGER_ERROR_NONE) ml_loge (...)\<close>,
  which the callback writes three times.
\<close>

definition destroy_pkg_info :: "'s world \<Rightarrow> nat option \<Rightarrow> 's state \<Rightarrow> 's state" where
  "destroy_pkg_info w pkg_info s =
     (let s1 = emit (Package_info_destroy pkg_info) s;
          ret = package_info_destroy w pkg_info
      in if ret \<noteq> PACKAGE_MANAGER_ERROR_NONE
         then ml_loge ''package_info_destroy failed: %d'' [ArgD ret] s1
         else s1)"

text \<open>The branch of an install that has completed.\<close>

definition install_completed :: "'s world \<Rightarrow> string \<Rightarrow> string \<Rightarrow> 's state \<Rightarrow> 's state" where
  "install_completed w package_name pkg_path s =
     (let s1 = emit (Package_info_create package_name) s;
          (ret, pkg_info) = package_info_create w package_name
      in if ret \<noteq> PACKAGE_MANAGER_ERROR_NONE
         then ml_loge ''package_info_create failed: %d'' [ArgD ret] s1
         else
          (let s2 = emit (Package_info_get_res_type pkg_info) s1;
               (ret, res_type) = package_info_get_res_type w pkg_info
           in if ret \<noteq> PACKAGE_MANAGER_ERROR_NONE
              then destroy_pkg_info w pkg_info
                     (ml_loge ''package_info_get_res_type failed: %d'' [ArgD ret] s2)
              else
               (let s3 = emit (Package_info_get_res_version pkg_info) s2;
                    (ret, res_version) = package_info_get_res_version w pkg_info
                in if ret \<noteq> PACKAGE_MANAGER_ERROR_NONE
                   then destroy_pkg_info w pkg_info
                          (ml_loge ''package_info_get_res_version failed: %d'' [ArgD ret] s3)
                   else
                    (let s4 = ml_logi
                                ''resource package %s is installed. res_type: %s, res_version: %s''
                                [ArgS package_name, ArgS res_type, ArgS res_version] s3;
                         s5 = (case pkg_info of
                                 None \<Rightarrow> s4
                               | Some h \<Rightarrow> destroy_pkg_info w pkg_info s4);
                         app_info = get_app_info w package_name res_type res_version;
                         json_path = g_build_filename w pkg_path res_type
                     in fold (\<lambda>t. parse_json w json_path t (Some app_info))
                          [MLSVC_JSON_MODEL, MLSVC_JSON_PIPELINE, MLSVC_JSON_RESOURCE] s5))))"

text \<open>
  The callback. \<^verbatim>\<open>type\<close> and \<^verbatim>\<open>package_name\<close> are C strings; \<^verbatim>\<open>progress\<close> and
  \<^verbatim>\<open>error\<close> are passed and never read; \<^verbatim>\<open>user_data\<close> is left out.
\<close>

definition pkg_mgr_event_cb ::
  "'s world \<Rightarrow> string \<Rightarrow> string \<Rightarrow> package_manager_event_type_e
   \<Rightarrow> package_manager_event_state_e \<Rightarrow> int \<Rightarrow> int \<Rightarrow> 's state \<Rightarrow> 's state" where
  "pkg_mgr_event_cb w pkg_type package_name event_type event_state progress error s =
     (let s0 = ml_logi ''type: %s, package_name: %s, event_type: %d, event_state: %d''
                 [ArgS pkg_type, ArgS package_name, ArgType event_type, ArgState event_state] s
      in if event_type = PACKAGE_MANAGER_EVENT_TYPE_RES_COPY
         then ml_logi ''resource package copy is being started'' [] s0
         else if g_ascii_strcasecmp pkg_type ''rpk'' \<noteq> 0 then s0
         else
          (let pkg_path = ''/opt/usr/globalapps/'' @ package_name @ ''/res/global''
           in if event_type = PACKAGE_MANAGER_EVENT_TYPE_INSTALL
                 \<and> event_state = PACKAGE_MANAGER_EVENT_STATE_COMPLETED
              then install_completed w package_name pkg_path s0
              else if event_type = PACKAGE_MANAGER_EVENT_TYPE_UNINSTALL
                      \<and> event_state = PACKAGE_MANAGER_EVENT_STATE_STARTED
              then pkg_mgr_echo_pkg_path_info w pkg_path
                     (ml_logi ''resource package %s is being uninstalled'' [ArgS package_name] s0)
              else if event_type = PACKAGE_MANAGER_EVENT_TYPE_UPDATE
                      \<and> event_state = PACKAGE_MANAGER_EVENT_STATE_COMPLETED
              then pkg_mgr_echo_pkg_path_info w pkg_path
                     (ml_logi ''resource package %s is updated'' [ArgS package_name] s0)
              else s0))"

section \<open>Notions the properties are stated with\<close>

text \<open>The object the loop gets for an element of the root array, and for turn \<open>i\<close>.\<close>

definition element_object :: "json \<Rightarrow> JsonObject option" where
  "element_object e = (case e of JObj ob \<Rightarrow> Some ob | _ \<Rightarrow> None)"

definition object_at :: "json option \<Rightarrow> JsonArray option \<Rightarrow> nat \<Rightarrow> JsonObject option" where
  "object_at root array i =
     (case array of
        Some a \<Rightarrow> json_array_get_object_element a i
      | None \<Rightarrow> json_node_get_object root)"

text \<open>
  The fields a record of a kind must have, and a malformed record: the daemon cannot get
  one of them as a string, because the member is absent, is null or holds no string (a
  number, a boolean, an array, an object), or because the record is no object.
\<close>

fun required_fields :: "mlsvc_json_type_e \<Rightarrow> string list" where
  "required_fields MLSVC_JSON_MODEL = [''name'', ''model'']"
| "required_fields MLSVC_JSON_PIPELINE = [''name'', ''description'']"
| "required_fields MLSVC_JSON_RESOURCE = [''name'', ''path'']"

definition missing_required :: "mlsvc_json_type_e \<Rightarrow> JsonObject option \<Rightarrow> bool" where
  "missing_required json_type object =
     list_ex (\<lambda>f. json_object_get_string_member object f = None) (required_fields json_type)"

definition malformed :: "mlsvc_json_type_e \<Rightarrow> json \<Rightarrow> bool" where
  "malformed json_type e = missing_required json_type (element_object e)"

text \<open>
  The narrower reading of "missing a required field": the record is an object and a
  required member is not among its members at all.
\<close>

definition absent_required :: "mlsvc_json_type_e \<Rightarrow> json \<Rightarrow> bool" where
  "absent_required json_type e =
     (case e of
        JObj members \<Rightarrow> list_ex (\<lambda>f. map_of members f = None) (required_fields json_type)
      | _ \<Rightarrow> True)"

text \<open>The name of a well-formed record; nothing for a malformed one.\<close>

definition object_name :: "mlsvc_json_type_e \<Rightarrow> JsonObject option \<Rightarrow> string option" where
  "object_name json_type object =
     (if missing_required json_type object then None
      else json_object_get_string_member object ''name'')"

definition record_name :: "mlsvc_json_type_e \<Rightarrow> json \<Rightarrow> string option" where
  "record_name json_type e =
     (if malformed json_type e then None
      else json_object_get_string_member (element_object e) ''name'')"

text \<open>
  A registration attempt is a call of \<^verbatim>\<open>svcdb_model_add\<close>, \<^verbatim>\<open>svcdb_pipeline_set\<close> or
  \<^verbatim>\<open>svcdb_resource_add\<close>; its name is the first argument.
\<close>

fun registered_name :: "action \<Rightarrow> string option" where
  "registered_name (Svcdb_model_add name model active desc app_info) = Some name"
| "registered_name (Svcdb_pipeline_set name desc) = Some name"
| "registered_name (Svcdb_resource_add name path desc app_info) = Some name"
| "registered_name a = None"

text \<open>The log line of a skipped record.\<close>

fun skip_log :: "mlsvc_json_type_e \<Rightarrow> string \<Rightarrow> action" where
  "skip_log MLSVC_JSON_MODEL json_file =
     Log LOG_ERROR ''Failed to get name or model from json file '%s'.'' [ArgS json_file]"
| "skip_log MLSVC_JSON_PIPELINE json_file =
     Log LOG_ERROR ''Failed to get name or description from json file '%s'.'' [ArgS json_file]"
| "skip_log MLSVC_JSON_RESOURCE json_file =
     Log LOG_ERROR ''Failed to get name or path from json file '%s'.'' [ArgS json_file]"

text \<open>The kinds of recorded calls.\<close>

fun is_registry_call :: "action \<Rightarrow> bool" where
  "is_registry_call (Svcdb_model_delete name version) = True"
| "is_registry_call (Svcdb_model_add name model active desc app_info) = True"
| "is_registry_call (Svcdb_pipeline_set name desc) = True"
| "is_registry_call (Svcdb_resource_delete name) = True"
| "is_registry_call (Svcdb_resource_add name path desc app_info) = True"
| "is_registry_call a = False"

fun is_file_access :: "action \<Rightarrow> bool" where
  "is_file_access (G_file_test filename test) = True"
| "is_file_access (Json_parser_load_from_file filename) = True"
| "is_file_access (G_dir_open path) = True"
| "is_file_access a = False"

fun is_observation :: "action \<Rightarrow> bool" where
  "is_observation (Log level fmt args) = True"
| "is_observation (G_file_test filename test) = True"
| "is_observation (G_dir_open path) = True"
| "is_observation a = False"

text \<open>A root that holds neither an array nor an object.\<close>

fun is_container :: "json \<Rightarrow> bool" where
  "is_container (JArr a) = True"
| "is_container (JObj ob) = True"
| "is_container v = False"

text \<open>
  The lookup of the package's metadata fails when one of the three queries of the
  callback returns an error.
\<close>

definition lookup_fails :: "'s world \<Rightarrow> string \<Rightarrow> bool" where
  "lookup_fails w package_name =
     (let (ret, pkg_info) = package_info_create w package_name
      in ret \<noteq> PACKAGE_MANAGER_ERROR_NONE
         \<or> fst (package_info_get_res_type w pkg_info) \<noteq> PACKAGE_MANAGER_ERROR_NONE
         \<or> fst (package_info_get_res_version w pkg_info) \<noteq> PACKAGE_MANAGER_ERROR_NONE)"

text \<open>
  An object all of whose members are strings, and what json-glib promises of its
  generator and its parser on such objects: parsing the text generated for one gives the
  object back.
\<close>

definition string_object :: "(string \<times> string) list \<Rightarrow> json" where
  "string_object members = JObj (map (\<lambda>m. (fst m, JStr (snd m))) members)"

definition parser_inverts_generator ::
  "(json \<Rightarrow> string) \<Rightarrow> (string \<Rightarrow> string + json option) \<Rightarrow> bool" where
  "parser_inverts_generator generate parse =
     (\<forall>members. parse (generate (string_object members)) = Inr (Some (string_object members)))"

text \<open>
  What a function on states appends to the trace, and the registry it leaves, when it
  starts on the registry \<open>db\<close>.
\<close>

definition acts_of :: "('s state \<Rightarrow> 's state) \<Rightarrow> 's \<Rightarrow> action list" where
  "acts_of F db = trace (F \<lparr>registry = db, trace = []\<rparr>)"

definition reg_of :: "('s state \<Rightarrow> 's state) \<Rightarrow> 's \<Rightarrow> 's" where
  "reg_of F db = registry (F \<lparr>registry = db, trace = []\<rparr>)"

section \<open>A platform to run the handler on\<close>

text \<open>
  A generator for an object of string members, writing it the way json-glib's generator
  does with indentation: one member a line behind two spaces, the name and the value in
  double quotes with " : " between them, and the strings escaped as json-glib's
  \<^verbatim>\<open>json_strescape\<close> escapes them (a backslash before a double quote and a backslash;
  \<^verbatim>\<open>\b \f \n \r \t\<close> and \<^verbatim>\<open>\u00XX\<close> for the control characters below 0x1f and for
  0x7f). And a reader of such text.
\<close>

definition hex_digit :: "nat \<Rightarrow> char" where
  "hex_digit n = (if n < 10 then char_of (48 + n) else char_of (87 + n))"

definition hex_value :: "char \<Rightarrow> nat option" where
  "hex_value c =
     (let n = (of_char c :: nat)
      in if 48 \<le> n \<and> n \<le> 57 then Some (n - 48)
         else if 97 \<le> n \<and> n \<le> 102 then Some (n - 87)
         else if 65 \<le> n \<and> n \<le> 70 then Some (n - 55)
         else None)"

definition escape_char :: "char \<Rightarrow> string" where
  "escape_char c =
     (if c = CHR 0x5C \<or> c = CHR 0x22 then [CHR 0x5C, c]
      else if (0 < (of_char c :: nat) \<and> (of_char c :: nat) < 0x1f) \<or> (of_char c :: nat) = 0x7f
      then (if c = CHR 0x08 then [CHR 0x5C, CHR ''b'']
            else if c = CHR 0x0C then [CHR 0x5C, CHR ''f'']
            else if c = CHR 0x0A then [CHR 0x5C, CHR ''n'']
            else if c = CHR 0x0D then [CHR 0x5C, CHR ''r'']
            else if c = CHR 0x09 then [CHR 0x5C, CHR ''t'']
            else [CHR 0x5C, CHR ''u'', CHR ''0'', CHR ''0'',
                  hex_digit ((of_char c :: nat) div 16), hex_digit ((of_char c :: nat) mod 16)])
      else [c])"

definition json_strescape :: "string \<Rightarrow> string" where
  "json_strescape s = concat (map escape_char s)"

definition simple_escape :: "char \<Rightarrow> char option" where
  "simple_escape e =
     (if e = CHR 0x22 then Some (CHR 0x22)
      else if e = CHR 0x5C then Some (CHR 0x5C)
      else if e = CHR ''/'' then Some (CHR ''/'')
      else if e = CHR ''b'' then Some (CHR 0x08)
      else if e = CHR ''f'' then Some (CHR 0x0C)
      else if e = CHR ''n'' then Some (CHR 0x0A)
      else if e = CHR ''r'' then Some (CHR 0x0D)
      else if e = CHR ''t'' then Some (CHR 0x09)
      else None)"

fun read_string :: "string \<Rightarrow> (string \<times> string) option" where
  "read_string [] = None"
| "read_string (c # cs) =
     (if c = CHR 0x22 then Some ([], cs)
      else if c = CHR 0x5C
      then (case cs of
              [] \<Rightarrow> None
            | e # es \<Rightarrow>
                (if e = CHR ''u''
                 then (case es of
                         a # b # h # l # rest \<Rightarrow>
                           (case (hex_value a, hex_value b, hex_value h, hex_value l) of
                              (Some 0, Some 0, Some x, Some y) \<Rightarrow>
                                map_option (\<lambda>(s, r). (char_of (16 * x + y) # s, r))
                                  (read_string rest)
                            | _ \<Rightarrow> None)
                       | _ \<Rightarrow> None)
                 else (case simple_escape e of
                         None \<Rightarrow> None
                       | Some d \<Rightarrow> map_option (\<lambda>(s, r). (d # s, r)) (read_string es))))
      else map_option (\<lambda>(s, r). (c # s, r)) (read_string cs))"

definition is_space :: "char \<Rightarrow> bool" where
  "is_space c = (c = CHR '' '' \<or> c = CHR 0x0A \<or> c = CHR 0x0D \<or> c = CHR 0x09)"

definition expect :: "char \<Rightarrow> string \<Rightarrow> string option" where
  "expect c text =
     (case dropWhile is_space text of
        [] \<Rightarrow> None
      | x # rest \<Rightarrow> if x = c then Some rest else None)"

fun read_members :: "nat \<Rightarrow> string \<Rightarrow> (string \<times> json) list option" where
  "read_members 0 text = None"
| "read_members (Suc fuel) text =
     (case expect (CHR 0x22) text of
        None \<Rightarrow> None
      | Some t1 \<Rightarrow>
     (case read_string t1 of
        None \<Rightarrow> None
      | Some (k, t2) \<Rightarrow>
     (case expect (CHR '':'') t2 of
        None \<Rightarrow> None
      | Some t3 \<Rightarrow>
     (case expect (CHR 0x22) t3 of
        None \<Rightarrow> None
      | Some t4 \<Rightarrow>
     (case read_string t4 of
        None \<Rightarrow> None
      | Some (v, t5) \<Rightarrow>
     (case expect (CHR '','') t5 of
        Some t6 \<Rightarrow> map_option ((#) (k, JStr v)) (read_members fuel t6)
      | None \<Rightarrow>
     (case expect (CHR ''}'') t5 of
        None \<Rightarrow> None
      | Some t6 \<Rightarrow> if dropWhile is_space t6 = [] then Some [(k, JStr v)] else None)))))))"

definition example_parser :: "string \<Rightarrow> string + json option" where
  "example_parser text =
     (case expect (CHR ''{'') text of
        None \<Rightarrow> Inl ''object expected''
      | Some t \<Rightarrow>
          (case expect (CHR ''}'') t of
             Some t' \<Rightarrow>
               if dropWhile is_space t' = [] then Inr (Some (JObj [])) else Inl ''syntax error''
           | None \<Rightarrow>
               (case read_members (length t) t of
                  None \<Rightarrow> Inl ''syntax error''
                | Some members \<Rightarrow> Inr (Some (JObj members)))))"

fun value_text :: "json \<Rightarrow> string" where
  "value_text (JStr s) = CHR 0x22 # json_strescape s @ [CHR 0x22]"
| "value_text v = ''null''"

definition member_text :: "string \<times> json \<Rightarrow> string" where
  "member_text m =
     ''  '' @ CHR 0x22 # json_strescape (fst m) @ CHR 0x22 # '' : '' @ value_text (snd m)"

fun members_text :: "(string \<times> json) list \<Rightarrow> string" where
  "members_text [] = []"
| "members_text [m] = member_text m"
| "members_text (m # ms) = member_text m @ '','' @ [CHR 0x0A] @ members_text ms"

definition example_generator :: "json \<Rightarrow> string" where
  "example_generator root =
     (case root of
        JObj members \<Rightarrow>
          if members = [] then ''{}''
          else ''{'' @ [CHR 0x0A] @ members_text members @ [CHR 0x0A] @ ''}''
      | _ \<Rightarrow> ''null'')"


text \<open>
  Regular files are given with what loading them yields, directories with their names.
  The path join puts one separator between the two elements, which is what GLib's join
  does for a first element that does not end with a separator and a second that does
  not start with one; the examples use it on such elements only.
  The registry is the list of the registered names; deleting a name that is not there
  fails.
\<close>

definition example_world ::
  "(string \<times> (string + json option)) list \<Rightarrow> (string \<times> string list) list
   \<Rightarrow> string list world" where
  "example_world files dirs =
     \<lparr> g_build_filename = (\<lambda>a b. a @ ''/'' @ b),
       access_F_OK = (\<lambda>p. p \<in> set (map fst files) \<or> p \<in> set (map fst dirs)),
       stat_S_ISREG = (\<lambda>p. p \<in> set (map fst files)),
       stat_S_ISDIR = (\<lambda>p. p \<in> set (map fst dirs)),
       json_parser_load_from_file =
         (\<lambda>p. case map_of files p of
                  Some r \<Rightarrow> r
                | None \<Rightarrow> Inl (if p \<in> set (map fst dirs) then ''Is a directory''
                                 else ''No such file or directory'')),
       g_dir_read_names = map_of dirs,
       package_info_create = (\<lambda>name. (0, Some 1)),
       package_info_get_res_type = (\<lambda>h. (0, ''ai'')),
       package_info_get_res_version = (\<lambda>h. (0, ''2'')),
       package_info_destroy = (\<lambda>h. 0),
       json_generator_to_data = example_generator,
       svcdb_model_delete =
         (\<lambda>name version db. if name \<in> set db then (0, removeAll name db) else (- 1, db)),
       svcdb_model_add =
         (\<lambda>name model active desc app_info db.
            ((0, word_of_nat (Suc (count_list db name))), db @ [name])),
       svcdb_pipeline_set = (\<lambda>name desc db. (0, db @ [name])),
       svcdb_resource_delete =
         (\<lambda>name db. if name \<in> set db then (0, removeAll name db) else (- 1, db)),
       svcdb_resource_add = (\<lambda>name path desc app_info db. (0, db @ [name])) \<rparr>"

definition empty_state :: "string list state" where
  "empty_state = \<lparr> registry = [], trace = [] \<rparr>"

definition example_elems :: "json list" where
  "example_elems =
     [JObj [(''name'', JStr ''m1''), (''model'', JStr ''m1.tflite''), (''activate'', JStr ''true'')],
      JObj [(''name'', JStr ''m2'')],
      JObj [(''name'', JStr ''m3''), (''model'', JStr ''m3.tflite''), (''clear'', JStr ''TRUE'')]]"

text \<open>
  The text json-glib's generator writes, with indentation, for the node of package
  "pkgA" with resource type "rpk" and resource version "1.0".
\<close>

definition example_app_info_text :: string where
  "example_app_info_text =
     ''{'' @ [CHR 0x0A]
     @ ''  \"is_rpk\" : \"T\",'' @ [CHR 0x0A]
     @ ''  \"app_id\" : \"pkgA\",'' @ [CHR 0x0A]
     @ ''  \"res_type\" : \"rpk\",'' @ [CHR 0x0A]
     @ ''  \"res_version\" : \"1.0\"'' @ [CHR 0x0A]
     @ ''}''"

section \<open>Facts about the string helpers\<close>

lemma of_char_eq_0_iff: "((of_char c :: nat) = 0) = (c = CHR 0x00)"
  using of_char_eq_iff [of c "CHR 0x00", where ?'a = nat] by simp

text \<open>On C strings the comparison returns 0 exactly when the lowered strings are equal.\<close>

lemma strcasecmp_eq_0_iff:
  "c_string a \<Longrightarrow> c_string b \<Longrightarrow>
     (g_ascii_strcasecmp a b = 0) = (map TOLOWER a = map TOLOWER b)"
proof (induction a b rule: g_ascii_strcasecmp.induct)
  case (1 x xs y ys)
  then show ?case by (auto simp: c_string_def Let_def)
next
  case (2 x xs)
  then show ?case by (auto simp: c_string_def of_char_eq_0_iff)
next
  case (3 y ys)
  then show ?case by (auto simp: c_string_def of_char_eq_0_iff)
next
  case 4
  then show ?case by simp
qed

lemma of_char_TOLOWER:
  "(of_char (TOLOWER c) :: nat) =
     (if 65 \<le> (of_char c :: nat) \<and> (of_char c :: nat) \<le> 90 then of_char c + 32 else of_char c)"
  by (auto simp: TOLOWER_def ISUPPER_def of_char_of)

text \<open>Only a lower-case letter and its upper-case form are lowered to the letter.\<close>

lemma TOLOWER_eq_letter:
  assumes "97 \<le> (of_char l :: nat)" and "(of_char l :: nat) \<le> 122"
    and "(of_char u :: nat) = of_char l - 32"
  shows "(TOLOWER c = l) = (c = l \<or> c = u)"
proof -
  have "(TOLOWER c = l) = ((of_char (TOLOWER c) :: nat) = of_char l)"
    by (simp add: of_char_eq_iff)
  also have "\<dots> = ((of_char c :: nat) = of_char l \<or> (of_char c :: nat) = of_char u)"
    using assms by (auto simp: of_char_TOLOWER)
  finally show ?thesis by (simp add: of_char_eq_iff)
qed

lemma TOLOWER_letters:
  "(TOLOWER c = CHR ''t'') = (c = CHR ''t'' \<or> c = CHR ''T'')"
  "(TOLOWER c = CHR ''r'') = (c = CHR ''r'' \<or> c = CHR ''R'')"
  "(TOLOWER c = CHR ''u'') = (c = CHR ''u'' \<or> c = CHR ''U'')"
  "(TOLOWER c = CHR ''e'') = (c = CHR ''e'' \<or> c = CHR ''E'')"
  "(TOLOWER c = CHR ''p'') = (c = CHR ''p'' \<or> c = CHR ''P'')"
  "(TOLOWER c = CHR ''k'') = (c = CHR ''k'' \<or> c = CHR ''K'')"
  by (rule TOLOWER_eq_letter; simp)+

lemma TOLOWER_literals:
  "map TOLOWER ''true'' = ''true''"
  "map TOLOWER ''rpk'' = ''rpk''"
  by (simp_all add: TOLOWER_def ISUPPER_def)

lemma map_TOLOWER_true:
  "(map TOLOWER s = ''true'') =
     (\<exists>a b c d. s = [a, b, c, d] \<and> a \<in> {CHR ''t'', CHR ''T''} \<and> b \<in> {CHR ''r'', CHR ''R''}
        \<and> c \<in> {CHR ''u'', CHR ''U''} \<and> d \<in> {CHR ''e'', CHR ''E''})"
proof -
  have "(map TOLOWER s = ''true'') =
     (\<exists>a b c d. s = [a, b, c, d] \<and> TOLOWER a = CHR ''t'' \<and> TOLOWER b = CHR ''r''
        \<and> TOLOWER c = CHR ''u'' \<and> TOLOWER d = CHR ''e'')"
    by (auto simp: map_eq_Cons_conv)
  then show ?thesis by (simp only: TOLOWER_letters insert_iff empty_iff simp_thms)
qed

lemma map_TOLOWER_rpk:
  "(map TOLOWER s = ''rpk'') =
     (\<exists>a b c. s = [a, b, c] \<and> a \<in> {CHR ''r'', CHR ''R''} \<and> b \<in> {CHR ''p'', CHR ''P''}
        \<and> c \<in> {CHR ''k'', CHR ''K''})"
proof -
  have "(map TOLOWER s = ''rpk'') =
     (\<exists>a b c. s = [a, b, c] \<and> TOLOWER a = CHR ''r'' \<and> TOLOWER b = CHR ''p''
        \<and> TOLOWER c = CHR ''k'')"
    by (auto simp: map_eq_Cons_conv)
  then show ?thesis by (simp only: TOLOWER_letters insert_iff empty_iff simp_thms)
qed

lemma strcasecmp_true_iff:
  assumes "c_string s"
  shows "(g_ascii_strcasecmp s ''true'' = 0) =
     (\<exists>a b c d. s = [a, b, c, d] \<and> a \<in> {CHR ''t'', CHR ''T''} \<and> b \<in> {CHR ''r'', CHR ''R''}
        \<and> c \<in> {CHR ''u'', CHR ''U''} \<and> d \<in> {CHR ''e'', CHR ''E''})"
proof -
  have "c_string ''true''" by (simp add: c_string_def)
  with assms have "(g_ascii_strcasecmp s ''true'' = 0) = (map TOLOWER s = map TOLOWER ''true'')"
    by (rule strcasecmp_eq_0_iff)
  then show ?thesis by (simp only: TOLOWER_literals map_TOLOWER_true)
qed

lemma strcasecmp_rpk_iff:
  assumes "c_string s"
  shows "(g_ascii_strcasecmp s ''rpk'' = 0) =
     (\<exists>a b c. s = [a, b, c] \<and> a \<in> {CHR ''r'', CHR ''R''} \<and> b \<in> {CHR ''p'', CHR ''P''}
        \<and> c \<in> {CHR ''k'', CHR ''K''})"
proof -
  have "c_string ''rpk''" by (simp add: c_string_def)
  with assms have "(g_ascii_strcasecmp s ''rpk'' = 0) = (map TOLOWER s = map TOLOWER ''rpk'')"
    by (rule strcasecmp_eq_0_iff)
  then show ?thesis by (simp only: TOLOWER_literals map_TOLOWER_rpk)
qed

lemma string_member_Some_iff:
  "(json_object_get_string_member object field = Some v) =
     (\<exists>members. object = Some members \<and> map_of members field = Some (JStr v))"
  by (auto simp: json_object_get_string_member_def split: option.splits json.splits)

section \<open>The boolean-like fields\<close>

text \<open>
  C3. For every record and every field name (so for "activate" and for "clear"), the
  flag the daemon computes from the field is true exactly when the record is an object
  that holds the field as a string of the four letters t, r, u, e, each in either case.
  An absent field, a NULL record, a member that is no string (a JSON boolean, a number,
  null) and every other string give false. The strings of a record are C strings.
\<close>

theorem flag_true_iff_caseless_true:
  assumes "\<forall>v. json_object_get_string_member object field = Some v \<longrightarrow> c_string v"
  shows "is_true_flag (json_object_get_string_member object field) =
     (\<exists>members a b c d.
        object = Some members \<and> map_of members field = Some (JStr [a, b, c, d])
        \<and> a \<in> {CHR ''t'', CHR ''T''} \<and> b \<in> {CHR ''r'', CHR ''R''}
        \<and> c \<in> {CHR ''u'', CHR ''U''} \<and> d \<in> {CHR ''e'', CHR ''E''})"
proof (cases "json_object_get_string_member object field")
  case None
  then have "\<And>v. \<not> (\<exists>members. object = Some members \<and> map_of members field = Some (JStr v))"
    using string_member_Some_iff [of object field] by simp
  then have "\<not> (\<exists>members a b c d.
        object = Some members \<and> map_of members field = Some (JStr [a, b, c, d])
        \<and> a \<in> {CHR ''t'', CHR ''T''} \<and> b \<in> {CHR ''r'', CHR ''R''}
        \<and> c \<in> {CHR ''u'', CHR ''U''} \<and> d \<in> {CHR ''e'', CHR ''E''})"
    by blast
  with None show ?thesis by (simp add: is_true_flag_def)
next
  case (Some v)
  then obtain members where m: "object = Some members" "map_of members field = Some (JStr v)"
    using string_member_Some_iff [of object field v] by auto
  from Some assms have "c_string v" by simp
  then have "is_true_flag (Some v) =
     (\<exists>a b c d. v = [a, b, c, d] \<and> a \<in> {CHR ''t'', CHR ''T''} \<and> b \<in> {CHR ''r'', CHR ''R''}
        \<and> c \<in> {CHR ''u'', CHR ''U''} \<and> d \<in> {CHR ''e'', CHR ''E''})"
    by (simp add: is_true_flag_def strcasecmp_true_iff)
  with Some m show ?thesis by auto
qed

theorem flag_true_iff_caseless_true_witness:
  "is_true_flag (json_object_get_string_member
       (Some [(''name'', JStr ''m1''), (''activate'', JStr ''TRUE'')]) ''activate'') =
     (\<exists>members a b c d.
        Some [(''name'', JStr ''m1''), (''activate'', JStr ''TRUE'')] = Some members
        \<and> map_of members ''activate'' = Some (JStr [a, b, c, d])
        \<and> a \<in> {CHR ''t'', CHR ''T''} \<and> b \<in> {CHR ''r'', CHR ''R''}
        \<and> c \<in> {CHR ''u'', CHR ''U''} \<and> d \<in> {CHR ''e'', CHR ''E''})"
  by (rule flag_true_iff_caseless_true) (simp add: json_object_get_string_member_def c_string_def)

text \<open>The forms that are not the literal: false, each evaluated.\<close>

lemma flag_other_forms_false:
  "is_true_flag (json_object_get_string_member (Some [(''activate'', JBool True)]) ''activate'') = False"
  "is_true_flag (json_object_get_string_member (Some [(''activate'', JStr ''1'')]) ''activate'') = False"
  "is_true_flag (json_object_get_string_member (Some [(''activate'', JStr ''yes'')]) ''activate'') = False"
  "is_true_flag (json_object_get_string_member (Some [(''activate'', JNum ''1'')]) ''activate'') = False"
  "is_true_flag (json_object_get_string_member (Some [(''name'', JStr ''m1'')]) ''clear'') = False"
  "is_true_flag (json_object_get_string_member (Some [(''clear'', JStr ''tRuE'')]) ''clear'') = True"
  by (simp_all add: is_true_flag_def json_object_get_string_member_def TOLOWER_def ISUPPER_def)

section \<open>Facts about the state and the loop\<close>

lemma emit_simps [simp]:
  "trace (emit a s) = trace s @ [a]" "registry (emit a s) = registry s"
  by (simp_all add: emit_def)

lemma ml_log_simps [simp]:
  "trace (ml_logi fmt args s) = trace s @ [Log LOG_INFO fmt args]"
  "registry (ml_logi fmt args s) = registry s"
  "trace (ml_logw fmt args s) = trace s @ [Log LOG_WARN fmt args]"
  "registry (ml_logw fmt args s) = registry s"
  "trace (ml_loge fmt args s) = trace s @ [Log LOG_ERROR fmt args]"
  "registry (ml_loge fmt args s) = registry s"
  by (simp_all add: ml_logi_def ml_logw_def ml_loge_def)

lemma call_simps [simp]:
  "trace (snd (call_svcdb_model_delete w name version s)) = trace s @ [Svcdb_model_delete name version]"
  "registry (snd (call_svcdb_model_delete w name version s)) = snd (svcdb_model_delete w name version (registry s))"
  "fst (call_svcdb_model_delete w name version s) = fst (svcdb_model_delete w name version (registry s))"
  "trace (snd (call_svcdb_model_add w name model active desc app s)) = trace s @ [Svcdb_model_add name model active desc app]"
  "registry (snd (call_svcdb_model_add w name model active desc app s)) = snd (svcdb_model_add w name model active desc app (registry s))"
  "fst (call_svcdb_model_add w name model active desc app s) = fst (svcdb_model_add w name model active desc app (registry s))"
  "trace (snd (call_svcdb_pipeline_set w name desc s)) = trace s @ [Svcdb_pipeline_set name desc]"
  "registry (snd (call_svcdb_pipeline_set w name desc s)) = snd (svcdb_pipeline_set w name desc (registry s))"
  "fst (call_svcdb_pipeline_set w name desc s) = fst (svcdb_pipeline_set w name desc (registry s))"
  "trace (snd (call_svcdb_resource_delete w name s)) = trace s @ [Svcdb_resource_delete name]"
  "registry (snd (call_svcdb_resource_delete w name s)) = snd (svcdb_resource_delete w name (registry s))"
  "fst (call_svcdb_resource_delete w name s) = fst (svcdb_resource_delete w name (registry s))"
  "trace (snd (call_svcdb_resource_add w name path desc app s)) = trace s @ [Svcdb_resource_add name path desc app]"
  "registry (snd (call_svcdb_resource_add w name path desc app s)) = snd (svcdb_resource_add w name path desc app (registry s))"
  "fst (call_svcdb_resource_add w name path desc app s) = fst (svcdb_resource_add w name path desc app (registry s))"
  by (simp_all add: call_svcdb_model_delete_def call_svcdb_model_add_def call_svcdb_pipeline_set_def
      call_svcdb_resource_delete_def call_svcdb_resource_add_def split: prod.splits)

text \<open>The loop is a fold over the indices, and over the elements of a root array.\<close>

lemma parse_json_loop_fold:
  "parse_json_loop w json_file json_type app_info root array i json_len s =
     fold (\<lambda>j. parse_json_object w json_file json_type app_info (object_at root array j))
       [i..<json_len] s"
proof (induction w json_file json_type app_info root array i json_len s rule: parse_json_loop.induct)
  case (1 w json_file json_type app_info root array i json_len s)
  show ?case
  proof (cases "i < json_len")
    case True
    then show ?thesis
      using "1.IH" [OF True refl]
      by (subst parse_json_loop.simps) (simp add: upt_rec [of i json_len] object_at_def)
  next
    case False
    then show ?thesis by (subst parse_json_loop.simps) simp
  qed
qed

lemma object_at_array:
  "i < length a \<Longrightarrow> object_at root (Some a) i = element_object (a ! i)"
  by (simp add: object_at_def json_array_get_object_element_def element_object_def)

lemma fold_indices_elements:
  "fold (\<lambda>j. g (object_at root (Some a) j)) [0..<length a] s = fold (\<lambda>e. g (element_object e)) a s"
proof -
  have "fold (\<lambda>j. g (object_at root (Some a) j)) [0..<length a] s
      = fold (\<lambda>j. g (element_object (a ! j))) [0..<length a] s"
    by (rule fold_cong) (simp_all add: object_at_array)
  also have "\<dots> = fold (\<lambda>e. g (element_object e)) (map ((!) a) [0..<length a]) s"
    by (simp add: fold_map comp_def)
  finally show ?thesis by (simp add: map_nth)
qed

lemma map_filter_simps [simp]:
  "List.map_filter f [] = []"
  "List.map_filter f (x # xs) = (case f x of None \<Rightarrow> List.map_filter f xs | Some y \<Rightarrow> y # List.map_filter f xs)"
  "List.map_filter f (xs @ ys) = List.map_filter f xs @ List.map_filter f ys"
  by (simp_all add: List.map_filter_def split: option.splits)

lemma parse_json_model_acts:
  "\<exists>acts. trace (parse_json_model w f app obj s) = trace s @ acts
     \<and> List.map_filter registered_name acts
          = List.map_filter (object_name MLSVC_JSON_MODEL) [obj]
     \<and> length (filter (\<lambda>a. a = skip_log MLSVC_JSON_MODEL f) acts)
          = (if missing_required MLSVC_JSON_MODEL obj then 1 else 0)"
  by (cases "json_object_get_string_member obj ''name''";
      cases "json_object_get_string_member obj ''model''")
     (auto simp: parse_json_model_def Let_def object_name_def missing_required_def
           case_prod_beta)

lemma parse_json_pipeline_acts:
  "\<exists>acts. trace (parse_json_pipeline w f obj s) = trace s @ acts
     \<and> List.map_filter registered_name acts
          = List.map_filter (object_name MLSVC_JSON_PIPELINE) [obj]
     \<and> length (filter (\<lambda>a. a = skip_log MLSVC_JSON_PIPELINE f) acts)
          = (if missing_required MLSVC_JSON_PIPELINE obj then 1 else 0)"
  by (cases "json_object_get_string_member obj ''name''";
      cases "json_object_get_string_member obj ''description''")
     (auto simp: parse_json_pipeline_def Let_def object_name_def missing_required_def
           case_prod_beta)

lemma parse_json_resource_acts:
  "\<exists>acts. trace (parse_json_resource w f app obj s) = trace s @ acts
     \<and> List.map_filter registered_name acts
          = List.map_filter (object_name MLSVC_JSON_RESOURCE) [obj]
     \<and> length (filter (\<lambda>a. a = skip_log MLSVC_JSON_RESOURCE f) acts)
          = (if missing_required MLSVC_JSON_RESOURCE obj then 1 else 0)"
  by (cases "json_object_get_string_member obj ''name''";
      cases "json_object_get_string_member obj ''path''")
     (auto simp: parse_json_resource_def Let_def object_name_def missing_required_def
           case_prod_beta)

lemma parse_json_object_acts:
  "\<exists>acts. trace (parse_json_object w f t app obj s) = trace s @ acts
     \<and> List.map_filter registered_name acts = List.map_filter (object_name t) [obj]
     \<and> length (filter (\<lambda>a. a = skip_log t f) acts) = (if missing_required t obj then 1 else 0)"
proof (cases t)
  case MLSVC_JSON_MODEL
  then show ?thesis using parse_json_model_acts [of w f app obj s] by simp
next
  case MLSVC_JSON_PIPELINE
  then show ?thesis using parse_json_pipeline_acts [of w f obj s] by simp
next
  case MLSVC_JSON_RESOURCE
  then show ?thesis using parse_json_resource_acts [of w f app obj s] by simp
qed

lemma object_name_element: "object_name t (element_object e) = record_name t e"
  by (simp add: object_name_def record_name_def malformed_def)

lemma fold_records_acts:
  "\<exists>acts. trace (fold (\<lambda>e. parse_json_object w f t app (element_object e)) elems s)
             = trace s @ acts
     \<and> List.map_filter registered_name acts = List.map_filter (record_name t) elems
     \<and> length (filter (\<lambda>a. a = skip_log t f) acts) = length (filter (malformed t) elems)"
proof (induction elems arbitrary: s)
  case Nil
  then show ?case by simp
next
  case (Cons e elems)
  obtain a1 where a1: "trace (parse_json_object w f t app (element_object e) s) = trace s @ a1"
      "List.map_filter registered_name a1 = List.map_filter (object_name t) [element_object e]"
      "length (filter (\<lambda>a. a = skip_log t f) a1) = (if missing_required t (element_object e) then 1 else 0)"
    using parse_json_object_acts [of w f t app "element_object e" s] by blast
  obtain a2 where a2:
      "trace (fold (\<lambda>e. parse_json_object w f t app (element_object e)) elems
                (parse_json_object w f t app (element_object e) s))
         = trace (parse_json_object w f t app (element_object e) s) @ a2"
      "List.map_filter registered_name a2 = List.map_filter (record_name t) elems"
      "length (filter (\<lambda>a. a = skip_log t f) a2) = length (filter (malformed t) elems)"
    using Cons.IH [of "parse_json_object w f t app (element_object e) s"] by blast
  have "trace (fold (\<lambda>e. parse_json_object w f t app (element_object e)) (e # elems) s)
          = trace s @ (a1 @ a2)"
    using a1(1) a2(1) by simp
  moreover have "List.map_filter registered_name (a1 @ a2) = List.map_filter (record_name t) (e # elems)"
    using a1(2) a2(2) by (simp add: object_name_element split: option.splits)
  moreover have "length (filter (\<lambda>a. a = skip_log t f) (a1 @ a2)) = length (filter (malformed t) (e # elems))"
    using a1(3) a2(3) by (simp add: malformed_def)
  ultimately show ?case by blast
qed

lemma record_name_None_iff: "(record_name t e = None) = malformed t e"
  by (cases t) (auto simp: record_name_def malformed_def missing_required_def)

lemma length_map_filter_record_name:
  "length (List.map_filter (record_name t) elems)
     = length elems - length (filter (malformed t) elems)"
proof (induction elems)
  case Nil
  then show ?case by simp
next
  case (Cons e elems)
  have "length (filter (malformed t) elems) \<le> length elems" by simp
  with Cons show ?case
    using record_name_None_iff [of t e] by (auto split: option.splits simp: Suc_diff_le)
qed

lemma parse_json_array:
  assumes "g_file_test w (g_build_filename w json_path (json_file_name t))
             {G_FILE_TEST_EXISTS, G_FILE_TEST_IS_REGULAR}"
    and "json_parser_load_from_file w (g_build_filename w json_path (json_file_name t))
           = Inr (Some (JArr elems))"
  shows "parse_json w json_path t app s =
     fold (\<lambda>e. parse_json_object w (g_build_filename w json_path (json_file_name t)) t app
                  (element_object e)) elems
       (emit (Json_parser_load_from_file (g_build_filename w json_path (json_file_name t)))
         (emit (G_file_test (g_build_filename w json_path (json_file_name t))
                  {G_FILE_TEST_EXISTS, G_FILE_TEST_IS_REGULAR}) s))"
  using assms
  by (simp add: parse_json_def Let_def JSON_NODE_HOLDS_ARRAY_def json_node_get_array_def
      json_array_get_length_def parse_json_loop_fold fold_indices_elements)

section \<open>Malformed records\<close>

text \<open>
  C1. The descriptor file of a kind exists and its root is an array of the elements
  \<open>elems\<close>, of which those are malformed from which the daemon cannot get a required
  field as a string: the member is absent, is null or is not a string. Then processing
  the file appends calls to the trace among which the registration attempts are, in the
  order of the array, those of the well-formed elements, one each under the element's
  name; there are as many of them as elements less the malformed ones, and as many skip
  lines as malformed elements. A malformed element stops nothing: the well-formed
  elements after it are registered.
\<close>

theorem malformed_records_skipped_others_registered:
  assumes "g_file_test w (g_build_filename w json_path (json_file_name json_type))
             {G_FILE_TEST_EXISTS, G_FILE_TEST_IS_REGULAR}"
    and "json_parser_load_from_file w (g_build_filename w json_path (json_file_name json_type))
           = Inr (Some (JArr elems))"
  shows "\<exists>acts. trace (parse_json w json_path json_type app_info s) = trace s @ acts
     \<and> List.map_filter registered_name acts = List.map_filter (record_name json_type) elems
     \<and> length (List.map_filter registered_name acts)
          = length elems - length (filter (malformed json_type) elems)
     \<and> length (filter (\<lambda>a. a = skip_log json_type
                                   (g_build_filename w json_path (json_file_name json_type))) acts)
          = length (filter (malformed json_type) elems)"
proof -
  let ?f = "g_build_filename w json_path (json_file_name json_type)"
  let ?s2 = "emit (Json_parser_load_from_file ?f)
               (emit (G_file_test ?f {G_FILE_TEST_EXISTS, G_FILE_TEST_IS_REGULAR}) s)"
  obtain acts where acts:
    "trace (fold (\<lambda>e. parse_json_object w ?f json_type app_info (element_object e)) elems ?s2)
       = trace ?s2 @ acts"
    "List.map_filter registered_name acts = List.map_filter (record_name json_type) elems"
    "length (filter (\<lambda>a. a = skip_log json_type ?f) acts)
       = length (filter (malformed json_type) elems)"
    using fold_records_acts [of w ?f json_type app_info elems ?s2] by blast
  let ?all = "[G_file_test ?f {G_FILE_TEST_EXISTS, G_FILE_TEST_IS_REGULAR},
               Json_parser_load_from_file ?f] @ acts"
  have "trace (parse_json w json_path json_type app_info s) = trace s @ ?all"
    using acts(1) by (simp add: parse_json_array [OF assms])
  moreover have "List.map_filter registered_name ?all = List.map_filter (record_name json_type) elems"
    using acts(2) by simp
  moreover have "length (List.map_filter registered_name ?all)
          = length elems - length (filter (malformed json_type) elems)"
    using acts(2) by (simp add: length_map_filter_record_name)
  moreover have "length (filter (\<lambda>a. a = skip_log json_type ?f) ?all)
          = length (filter (malformed json_type) elems)"
    using acts(3) by (cases json_type) simp_all
  ultimately show ?thesis by blast
qed

theorem malformed_records_skipped_others_registered_witness:
  "\<exists>acts. trace (parse_json
                    (example_world
                       [(''/res/model_description.json'', Inr (Some (JArr example_elems)))] [])
                    ''/res'' MLSVC_JSON_MODEL (Some ''app'') empty_state)
             = trace empty_state @ acts
     \<and> List.map_filter registered_name acts
          = List.map_filter (record_name MLSVC_JSON_MODEL) example_elems
     \<and> length (List.map_filter registered_name acts)
          = length example_elems - length (filter (malformed MLSVC_JSON_MODEL) example_elems)
     \<and> length (filter (\<lambda>a. a = skip_log MLSVC_JSON_MODEL
                 (g_build_filename
                    (example_world
                       [(''/res/model_description.json'', Inr (Some (JArr example_elems)))] [])
                    ''/res'' (json_file_name MLSVC_JSON_MODEL))) acts)
          = length (filter (malformed MLSVC_JSON_MODEL) example_elems)"
  by (rule malformed_records_skipped_others_registered)
     (simp_all add: example_world_def g_file_test_def)

text \<open>The example, evaluated: two registrations (m1, m3) and one skipped record (m2).\<close>

lemma example_elems_evaluated:
  "List.map_filter (record_name MLSVC_JSON_MODEL) example_elems = [''m1'', ''m3'']"
  "length (filter (malformed MLSVC_JSON_MODEL) example_elems) = 1"
  by (simp_all add: example_elems_def record_name_def malformed_def missing_required_def
      element_object_def json_object_get_string_member_def)

text \<open>
  A malformed object is one with a required field that is absent or holds no string; an
  object with a required field absent is malformed, and not the other way round.
\<close>

lemma malformed_object_iff:
  "malformed json_type (JObj members) =
     list_ex (\<lambda>f. case map_of members f of Some (JStr v) \<Rightarrow> False | _ \<Rightarrow> True)
       (required_fields json_type)"
  by (cases json_type)
     (auto simp: malformed_def missing_required_def element_object_def
        json_object_get_string_member_def split: option.splits json.splits)

lemma absent_required_malformed:
  "absent_required json_type e \<Longrightarrow> malformed json_type e"
  by (cases json_type; cases e)
     (auto simp: absent_required_def malformed_def missing_required_def element_object_def
        json_object_get_string_member_def)

text \<open>
  With "malformed" read as "a required member is absent", the count fails: the record
  below has both required members, the name as a number; no member is missing, yet the
  daemon skips the record and makes no registration attempt where the count gives one.
\<close>

theorem present_but_no_string_counterexample:
  "\<not> (length (List.map_filter registered_name
          (trace (parse_json
             (example_world
                [(''/res/model_description.json'',
                  Inr (Some (JArr [JObj [(''name'', JNum ''7''), (''model'', JStr ''f'')]])))] [])
             ''/res'' MLSVC_JSON_MODEL (Some ''app'') empty_state)))
       = length [JObj [(''name'', JNum ''7''), (''model'', JStr ''f'')]]
         - length (filter (absent_required MLSVC_JSON_MODEL)
                     [JObj [(''name'', JNum ''7''), (''model'', JStr ''f'')]]))
   \<and> filter (absent_required MLSVC_JSON_MODEL)
         [JObj [(''name'', JNum ''7''), (''model'', JStr ''f'')]] = []
   \<and> List.map_filter registered_name
         (trace (parse_json
             (example_world
                [(''/res/model_description.json'',
                  Inr (Some (JArr [JObj [(''name'', JNum ''7''), (''model'', JStr ''f'')]])))] [])
             ''/res'' MLSVC_JSON_MODEL (Some ''app'') empty_state)) = []"
proof -
  have run: "parse_json
             (example_world
                [(''/res/model_description.json'',
                  Inr (Some (JArr [JObj [(''name'', JNum ''7''), (''model'', JStr ''f'')]])))] [])
             ''/res'' MLSVC_JSON_MODEL (Some ''app'') empty_state
     = \<lparr>registry = [],
        trace = [G_file_test ''/res/model_description.json''
                   {G_FILE_TEST_EXISTS, G_FILE_TEST_IS_REGULAR},
                 Json_parser_load_from_file ''/res/model_description.json'',
                 Log LOG_ERROR ''Failed to get name or model from json file '%s'.''
                   [ArgS ''/res/model_description.json'']]\<rparr>"
    by (simp add: parse_json_def Let_def example_world_def empty_state_def g_file_test_def
        JSON_NODE_HOLDS_ARRAY_def json_node_get_array_def json_array_get_length_def
        parse_json_loop_fold object_at_def json_array_get_object_element_def
        parse_json_model_def json_object_get_string_member_def ml_loge_def emit_def)
  show ?thesis
    unfolding run by (simp add: absent_required_def)
qed

section \<open>What a function appends does not depend on the trace so far\<close>

lemma parse_json_model_frame:
  "trace (parse_json_model w f app obj s) = trace s @ acts_of (parse_json_model w f app obj) (registry s)"
  "registry (parse_json_model w f app obj s) = reg_of (parse_json_model w f app obj) (registry s)"
  by (simp_all add: acts_of_def reg_of_def parse_json_model_def Let_def case_prod_beta
      split: option.splits)

lemma parse_json_pipeline_frame:
  "trace (parse_json_pipeline w f obj s) = trace s @ acts_of (parse_json_pipeline w f obj) (registry s)"
  "registry (parse_json_pipeline w f obj s) = reg_of (parse_json_pipeline w f obj) (registry s)"
  by (simp_all add: acts_of_def reg_of_def parse_json_pipeline_def Let_def case_prod_beta
      split: option.splits)

lemma parse_json_resource_frame:
  "trace (parse_json_resource w f app obj s) = trace s @ acts_of (parse_json_resource w f app obj) (registry s)"
  "registry (parse_json_resource w f app obj s) = reg_of (parse_json_resource w f app obj) (registry s)"
  by (simp_all add: acts_of_def reg_of_def parse_json_resource_def Let_def case_prod_beta
      split: option.splits)

lemma parse_json_object_frame:
  "trace (parse_json_object w f t app obj s) = trace s @ acts_of (parse_json_object w f t app obj) (registry s)"
  "registry (parse_json_object w f t app obj s) = reg_of (parse_json_object w f t app obj) (registry s)"
  by (cases t; simp add: acts_of_def reg_of_def;
      simp add: parse_json_model_frame parse_json_pipeline_frame parse_json_resource_frame)+

lemma acts_of_Cons:
  assumes "\<And>s. trace (G s) = trace s @ acts_of G (registry s)"
    and "\<And>s. registry (G s) = reg_of G (registry s)"
  shows "acts_of (\<lambda>s. G (F s)) db = acts_of F db @ acts_of G (reg_of F db)"
    and "reg_of (\<lambda>s. G (F s)) db = reg_of G (reg_of F db)"
proof -
  show "acts_of (\<lambda>s. G (F s)) db = acts_of F db @ acts_of G (reg_of F db)"
    using assms(1) [of "F \<lparr>registry = db, trace = []\<rparr>"]
    by (simp only: acts_of_def reg_of_def)
  show "reg_of (\<lambda>s. G (F s)) db = reg_of G (reg_of F db)"
    using assms(2) [of "F \<lparr>registry = db, trace = []\<rparr>"]
    by (simp only: acts_of_def reg_of_def)
qed

lemma fold_frame:
  assumes F1: "\<And>x s. trace (F x s) = trace s @ acts_of (F x) (registry s)"
    and F2: "\<And>x s. registry (F x s) = reg_of (F x) (registry s)"
  shows "trace (fold F xs s) = trace s @ acts_of (fold F xs) (registry s)
       \<and> registry (fold F xs s) = reg_of (fold F xs) (registry s)"
proof (induction xs arbitrary: s)
  case Nil
  then show ?case by (simp add: acts_of_def reg_of_def)
next
  case (Cons x xs)
  have G1: "\<And>s. trace (fold F xs s) = trace s @ acts_of (fold F xs) (registry s)"
    and G2: "\<And>s. registry (fold F xs s) = reg_of (fold F xs) (registry s)"
    using Cons.IH by simp_all
  have e: "fold F (x # xs) = (\<lambda>s. fold F xs (F x s))"
    by (simp add: fun_eq_iff)
  have a: "acts_of (fold F (x # xs)) (registry s)
             = acts_of (F x) (registry s) @ acts_of (fold F xs) (reg_of (F x) (registry s))"
    unfolding e by (rule acts_of_Cons(1) [OF G1 G2])
  have r: "reg_of (fold F (x # xs)) (registry s) = reg_of (fold F xs) (reg_of (F x) (registry s))"
    unfolding e by (rule acts_of_Cons(2) [OF G1 G2])
  have "trace (fold F (x # xs) s) = trace (F x s) @ acts_of (fold F xs) (registry (F x s))"
    using G1 [of "F x s"] by simp
  then have t: "trace (fold F (x # xs) s) = trace s @ acts_of (fold F (x # xs)) (registry s)"
    by (simp only: F1 F2 a append_assoc)
  have "registry (fold F (x # xs) s) = reg_of (fold F xs) (registry (F x s))"
    using G2 [of "F x s"] by simp
  then have "registry (fold F (x # xs) s) = reg_of (fold F (x # xs)) (registry s)"
    by (simp only: F2 r)
  with t show ?case by blast
qed

lemma parse_json_loop_frame:
  "trace (parse_json_loop w f t app root array i n s)
     = trace s @ acts_of (parse_json_loop w f t app root array i n) (registry s)"
  "registry (parse_json_loop w f t app root array i n s)
     = reg_of (parse_json_loop w f t app root array i n) (registry s)"
proof -
  have e: "parse_json_loop w f t app root array i n
             = fold (\<lambda>j. parse_json_object w f t app (object_at root array j)) [i..<n]"
    by (simp add: fun_eq_iff parse_json_loop_fold)
  have p1: "\<And>x s. trace (parse_json_object w f t app (object_at root array x) s)
              = trace s @ acts_of (parse_json_object w f t app (object_at root array x)) (registry s)"
    by (rule parse_json_object_frame)
  have p2: "\<And>x s. registry (parse_json_object w f t app (object_at root array x) s)
              = reg_of (parse_json_object w f t app (object_at root array x)) (registry s)"
    by (rule parse_json_object_frame)
  note ff = fold_frame [of "\<lambda>j. parse_json_object w f t app (object_at root array j)"
                           "[i..<n]" s, OF p1 p2]
  show "trace (parse_json_loop w f t app root array i n s)
     = trace s @ acts_of (parse_json_loop w f t app root array i n) (registry s)"
    unfolding e using ff by (rule conjunct1)
  show "registry (parse_json_loop w f t app root array i n s)
     = reg_of (parse_json_loop w f t app root array i n) (registry s)"
    unfolding e using ff by (rule conjunct2)
qed

lemma parse_json_frame:
  "trace (parse_json w p t app s) = trace s @ acts_of (parse_json w p t app) (registry s)"
  "registry (parse_json w p t app s) = reg_of (parse_json w p t app) (registry s)"
  unfolding acts_of_def [of "parse_json w p t app"] reg_of_def [of "parse_json w p t app"]
  by (simp_all add: parse_json_def Let_def parse_json_loop_frame
      split: sum.splits option.splits)

section \<open>One object and the array of that object\<close>

lemma parse_json_loop_once:
  "parse_json_loop w f t app root None 0 (Suc 0) s
     = parse_json_object w f t app (json_node_get_object root) s"
  by (simp add: parse_json_loop_fold object_at_def)

lemma parse_json_loop_singleton:
  "parse_json_loop w f t app root (Some [e]) 0 (Suc 0) s
     = parse_json_object w f t app (element_object e) s"
  by (simp add: parse_json_loop_fold object_at_def json_array_get_object_element_def
      element_object_def)

lemma parse_json_object_missing:
  "missing_required t obj \<Longrightarrow>
     parse_json_object w f t app obj s = s\<lparr>trace := trace s @ [skip_log t f]\<rparr>"
  by (cases t)
     (auto simp: missing_required_def parse_json_model_def parse_json_pipeline_def
        parse_json_resource_def Let_def ml_loge_def emit_def split: option.splits)

lemma parse_json_object_world:
  "parse_json_object (w\<lparr>json_parser_load_from_file := load\<rparr>) f t app obj s
     = parse_json_object w f t app obj s"
  by (cases t)
     (simp_all add: parse_json_model_def parse_json_pipeline_def parse_json_resource_def
        call_svcdb_model_delete_def call_svcdb_model_add_def call_svcdb_pipeline_set_def
        call_svcdb_resource_delete_def call_svcdb_resource_add_def Let_def
        split: option.splits)

text \<open>
  C4. For every object and every kind, processing a descriptor whose root is the object
  ends in the same state (the same calls in the same order, the same registry) as
  processing one whose root is the array of that one object; the two platforms differ in
  what loading the file yields and in nothing else.
\<close>

theorem single_object_same_as_singleton_array:
  "parse_json (w\<lparr>json_parser_load_from_file := (\<lambda>f. Inr (Some (JObj ob)))\<rparr>)
       json_path json_type app_info s
     = parse_json (w\<lparr>json_parser_load_from_file := (\<lambda>f. Inr (Some (JArr [JObj ob])))\<rparr>)
         json_path json_type app_info s"
  by (simp add: parse_json_def Let_def g_file_test_def JSON_NODE_HOLDS_ARRAY_def
      json_node_get_array_def json_array_get_length_def parse_json_loop_once
      parse_json_loop_singleton json_node_get_object_def element_object_def
      parse_json_object_world)

theorem single_object_same_as_singleton_array_witness:
  "parse_json ((example_world [(''/res/model_description.json'', Inl [])] [])
                 \<lparr>json_parser_load_from_file :=
                    (\<lambda>f. Inr (Some (JObj [(''name'', JStr ''m1''), (''model'', JStr ''m1.tflite'')])))\<rparr>)
       ''/res'' MLSVC_JSON_MODEL (Some ''app'') empty_state
     = parse_json ((example_world [(''/res/model_description.json'', Inl [])] [])
                 \<lparr>json_parser_load_from_file :=
                    (\<lambda>f. Inr (Some (JArr [JObj [(''name'', JStr ''m1''),
                                                  (''model'', JStr ''m1.tflite'')]])))\<rparr>)
         ''/res'' MLSVC_JSON_MODEL (Some ''app'') empty_state"
  by (rule single_object_same_as_singleton_array)

section \<open>A root that is neither an array nor an object\<close>

text \<open>
  C10. The descriptor file exists and its root is a value that is neither an array nor
  an object. Then processing it ends (the model is a total function), the root is taken
  as one record, no field of it can be read, and the record is skipped: the state
  afterwards is the state before with three more lines in the trace, the test of the
  file, the load, and the skip line. No registry call is made and the registry is as
  before.
\<close>

theorem scalar_root_skipped:
  assumes "g_file_test w (g_build_filename w json_path (json_file_name json_type))
             {G_FILE_TEST_EXISTS, G_FILE_TEST_IS_REGULAR}"
    and "json_parser_load_from_file w (g_build_filename w json_path (json_file_name json_type))
           = Inr (Some r)"
    and "\<not> is_container r"
  shows "parse_json w json_path json_type app_info s =
     s\<lparr>trace := trace s @
          [G_file_test (g_build_filename w json_path (json_file_name json_type))
             {G_FILE_TEST_EXISTS, G_FILE_TEST_IS_REGULAR},
           Json_parser_load_from_file (g_build_filename w json_path (json_file_name json_type)),
           skip_log json_type (g_build_filename w json_path (json_file_name json_type))]\<rparr>"
proof -
  have obj: "json_node_get_object (Some r) = None" and arr: "\<not> JSON_NODE_HOLDS_ARRAY (Some r)"
    using assms(3) by (cases r; simp add: json_node_get_object_def JSON_NODE_HOLDS_ARRAY_def)+
  have miss: "missing_required json_type None"
    by (cases json_type) (simp_all add: missing_required_def json_object_get_string_member_def)
  show ?thesis
    using assms(1,2) arr
    by (simp add: parse_json_def Let_def parse_json_loop_once obj
        parse_json_object_missing [OF miss] emit_def)
qed

theorem scalar_root_skipped_witness:
  "parse_json (example_world [(''/res/model_description.json'', Inr (Some (JStr ''x'')))] [])
       ''/res'' MLSVC_JSON_MODEL (Some ''app'') empty_state =
     empty_state\<lparr>trace := trace empty_state @
          [G_file_test
             (g_build_filename
                (example_world [(''/res/model_description.json'', Inr (Some (JStr ''x'')))] [])
                ''/res'' (json_file_name MLSVC_JSON_MODEL))
             {G_FILE_TEST_EXISTS, G_FILE_TEST_IS_REGULAR},
           Json_parser_load_from_file
             (g_build_filename
                (example_world [(''/res/model_description.json'', Inr (Some (JStr ''x'')))] [])
                ''/res'' (json_file_name MLSVC_JSON_MODEL)),
           skip_log MLSVC_JSON_MODEL
             (g_build_filename
                (example_world [(''/res/model_description.json'', Inr (Some (JStr ''x'')))] [])
                ''/res'' (json_file_name MLSVC_JSON_MODEL))]\<rparr>"
  by (rule scalar_root_skipped [where r = "JStr ''x''"])
     (simp_all add: example_world_def g_file_test_def)

section \<open>Clearing the previous entry\<close>

text \<open>
  C5. A model record with a name and a model: when its "clear" flag is true the daemon
  calls \<^verbatim>\<open>svcdb_model_delete\<close> with the name and version 0 and then
  \<^verbatim>\<open>svcdb_model_add\<close>; when it is not, \<^verbatim>\<open>svcdb_model_add\<close> alone; a log line
  follows. The add runs on the registry the delete left, whatever the delete returned:
  the statement holds for every registry, so also for one whose delete fails. The same
  for a resource record with a name and a path, with \<^verbatim>\<open>svcdb_resource_delete\<close> and
  \<^verbatim>\<open>svcdb_resource_add\<close>.
\<close>

theorem clear_previous_deletes_then_adds:
  assumes "json_object_get_string_member mobj ''name'' = Some mname"
    and "json_object_get_string_member mobj ''model'' = Some model"
    and "json_object_get_string_member robj ''name'' = Some rname"
    and "json_object_get_string_member robj ''path'' = Some path"
  shows "(\<exists>l. trace (parse_json_object w f MLSVC_JSON_MODEL app mobj s) =
            trace s
            @ (if is_true_flag (json_object_get_string_member mobj ''clear'')
               then [Svcdb_model_delete mname 0] else [])
            @ [Svcdb_model_add mname model
                 (is_true_flag (json_object_get_string_member mobj ''activate''))
                 (or_empty (json_object_get_string_member mobj ''description''))
                 (or_empty app), l]
          \<and> \<not> is_registry_call l)
     \<and> registry (parse_json_object w f MLSVC_JSON_MODEL app mobj s) =
          snd (svcdb_model_add w mname model
                 (is_true_flag (json_object_get_string_member mobj ''activate''))
                 (or_empty (json_object_get_string_member mobj ''description''))
                 (or_empty app)
                 (if is_true_flag (json_object_get_string_member mobj ''clear'')
                  then snd (svcdb_model_delete w mname 0 (registry s)) else registry s))
     \<and> (\<exists>l. trace (parse_json_object w f MLSVC_JSON_RESOURCE app robj s) =
            trace s
            @ (if is_true_flag (json_object_get_string_member robj ''clear'')
               then [Svcdb_resource_delete rname] else [])
            @ [Svcdb_resource_add rname path
                 (or_empty (json_object_get_string_member robj ''description''))
                 (or_empty app), l]
          \<and> \<not> is_registry_call l)
     \<and> registry (parse_json_object w f MLSVC_JSON_RESOURCE app robj s) =
          snd (svcdb_resource_add w rname path
                 (or_empty (json_object_get_string_member robj ''description''))
                 (or_empty app)
                 (if is_true_flag (json_object_get_string_member robj ''clear'')
                  then snd (svcdb_resource_delete w rname (registry s)) else registry s))"
  using assms
  by (simp add: parse_json_model_def parse_json_resource_def Let_def case_prod_beta)

theorem clear_previous_deletes_then_adds_witness:
  "(\<exists>l. trace (parse_json_object (example_world [] []) ''/res/model_description.json''
                  MLSVC_JSON_MODEL (Some ''app'')
                  (Some [(''name'', JStr ''m3''), (''model'', JStr ''m3.tflite''),
                         (''clear'', JStr ''TRUE'')]) empty_state) =
            trace empty_state
            @ (if is_true_flag (json_object_get_string_member
                     (Some [(''name'', JStr ''m3''), (''model'', JStr ''m3.tflite''),
                            (''clear'', JStr ''TRUE'')]) ''clear'')
               then [Svcdb_model_delete ''m3'' 0] else [])
            @ [Svcdb_model_add ''m3'' ''m3.tflite''
                 (is_true_flag (json_object_get_string_member
                     (Some [(''name'', JStr ''m3''), (''model'', JStr ''m3.tflite''),
                            (''clear'', JStr ''TRUE'')]) ''activate''))
                 (or_empty (json_object_get_string_member
                     (Some [(''name'', JStr ''m3''), (''model'', JStr ''m3.tflite''),
                            (''clear'', JStr ''TRUE'')]) ''description''))
                 (or_empty (Some ''app'')), l]
          \<and> \<not> is_registry_call l)
     \<and> registry (parse_json_object (example_world [] []) ''/res/model_description.json''
                  MLSVC_JSON_MODEL (Some ''app'')
                  (Some [(''name'', JStr ''m3''), (''model'', JStr ''m3.tflite''),
                         (''clear'', JStr ''TRUE'')]) empty_state) =
          snd (svcdb_model_add (example_world [] []) ''m3'' ''m3.tflite''
                 (is_true_flag (json_object_get_string_member
                     (Some [(''name'', JStr ''m3''), (''model'', JStr ''m3.tflite''),
                            (''clear'', JStr ''TRUE'')]) ''activate''))
                 (or_empty (json_object_get_string_member
                     (Some [(''name'', JStr ''m3''), (''model'', JStr ''m3.tflite''),
                            (''clear'', JStr ''TRUE'')]) ''description''))
                 (or_empty (Some ''app''))
                 (if is_true_flag (json_object_get_string_member
                     (Some [(''name'', JStr ''m3''), (''model'', JStr ''m3.tflite''),
                            (''clear'', JStr ''TRUE'')]) ''clear'')
                  then snd (svcdb_model_delete (example_world [] []) ''m3'' 0
                              (registry empty_state))
                  else registry empty_state))
     \<and> (\<exists>l. trace (parse_json_object (example_world [] []) ''/res/model_description.json''
                  MLSVC_JSON_RESOURCE (Some ''app'')
                  (Some [(''name'', JStr ''r1''), (''path'', JStr ''/r1'')]) empty_state) =
            trace empty_state
            @ (if is_true_flag (json_object_get_string_member
                     (Some [(''name'', JStr ''r1''), (''path'', JStr ''/r1'')]) ''clear'')
               then [Svcdb_resource_delete ''r1''] else [])
            @ [Svcdb_resource_add ''r1'' ''/r1''
                 (or_empty (json_object_get_string_member
                     (Some [(''name'', JStr ''r1''), (''path'', JStr ''/r1'')]) ''description''))
                 (or_empty (Some ''app'')), l]
          \<and> \<not> is_registry_call l)
     \<and> registry (parse_json_object (example_world [] []) ''/res/model_description.json''
                  MLSVC_JSON_RESOURCE (Some ''app'')
                  (Some [(''name'', JStr ''r1''), (''path'', JStr ''/r1'')]) empty_state) =
          snd (svcdb_resource_add (example_world [] []) ''r1'' ''/r1''
                 (or_empty (json_object_get_string_member
                     (Some [(''name'', JStr ''r1''), (''path'', JStr ''/r1'')]) ''description''))
                 (or_empty (Some ''app''))
                 (if is_true_flag (json_object_get_string_member
                     (Some [(''name'', JStr ''r1''), (''path'', JStr ''/r1'')]) ''clear'')
                  then snd (svcdb_resource_delete (example_world [] []) ''r1''
                              (registry empty_state))
                  else registry empty_state))"
  by (rule clear_previous_deletes_then_adds)
     (simp_all add: json_object_get_string_member_def)

text \<open>
  The model record of the example, evaluated on the empty registry: the delete fails
  (there is nothing to delete) and the add follows.
\<close>

lemma clear_on_empty_registry_evaluated:
  "fst (svcdb_model_delete (example_world [] []) ''m3'' 0 (registry empty_state)) = - 1"
  "parse_json_object (example_world [] []) ''/res/model_description.json''
       MLSVC_JSON_MODEL (Some ''app'')
       (Some [(''name'', JStr ''m3''), (''model'', JStr ''m3.tflite''), (''clear'', JStr ''TRUE'')])
       empty_state
     = \<lparr>registry = [''m3''],
        trace = [Svcdb_model_delete ''m3'' 0,
                 Svcdb_model_add ''m3'' ''m3.tflite'' False [] ''app'',
                 Log LOG_INFO ''The model with name '%s' is registered as version '%u'.''
                   [ArgS ''m3'', ArgU 1]]\<rparr>"
  by (simp_all add: example_world_def empty_state_def parse_json_model_def
      json_object_get_string_member_def is_true_flag_def or_empty_def TOLOWER_def ISUPPER_def
      call_svcdb_model_delete_def call_svcdb_model_add_def ml_logi_def emit_def)

section \<open>Locating the descriptor\<close>

text \<open>
  What holds of the locator: the file tested is the kind's file name joined under the
  root; the test of the two flags is true as soon as the path exists; a path that does
  not exist is skipped with a warning and nothing else.
\<close>

lemma file_test_exists_or_regular:
  "g_file_test w f {G_FILE_TEST_EXISTS, G_FILE_TEST_IS_REGULAR}
     = (access_F_OK w f \<or> stat_S_ISREG w f)"
  by (simp add: g_file_test_def)

lemma json_file_located:
  "\<exists>acts. trace (parse_json w json_path json_type app_info s)
             = trace s @ G_file_test (g_build_filename w json_path (json_file_name json_type))
                           {G_FILE_TEST_EXISTS, G_FILE_TEST_IS_REGULAR} # acts"
  by (simp add: parse_json_def Let_def parse_json_loop_frame split: sum.splits option.splits)

lemma absent_descriptor_skipped:
  assumes "\<not> access_F_OK w (g_build_filename w json_path (json_file_name json_type))"
    and "\<not> stat_S_ISREG w (g_build_filename w json_path (json_file_name json_type))"
  shows "parse_json w json_path json_type app_info s =
     s\<lparr>trace := trace s @
          [G_file_test (g_build_filename w json_path (json_file_name json_type))
             {G_FILE_TEST_EXISTS, G_FILE_TEST_IS_REGULAR},
           Log LOG_WARN
             ''Failed to find json file '%s'. RPK using ML Service API should provide this json file.''
             [ArgS (g_build_filename w json_path (json_file_name json_type))]]\<rparr>"
  using assms by (simp add: parse_json_def Let_def g_file_test_def ml_logw_def emit_def)

text \<open>
  C6. The specification has a descriptor path that is not a regular file skipped like
  an absent one, with a warning and no error. GLib's \<^verbatim>\<open>g_file_test\<close> "returns TRUE if any of the tests in the
  bitfield test are TRUE", so the test of \<^verbatim>\<open>G_FILE_TEST_EXISTS | G_FILE_TEST_IS_REGULAR\<close>
  passes for every path that exists. Here the path is a directory: the daemon goes on to
  load it and reports an error of the parser instead of the warning of an absent file.
\<close>

theorem directory_descriptor_is_loaded:
  "parse_json (example_world [] [(''/res/model_description.json'', [])])
       ''/res'' MLSVC_JSON_MODEL (Some ''app'') empty_state
     = \<lparr>registry = [],
        trace = [G_file_test ''/res/model_description.json''
                   {G_FILE_TEST_EXISTS, G_FILE_TEST_IS_REGULAR},
                 Json_parser_load_from_file ''/res/model_description.json'',
                 Log LOG_ERROR ''Failed to parse json file '%s': %s''
                   [ArgS ''/res/model_description.json'', ArgS ''Is a directory'']]\<rparr>"
  by (simp add: parse_json_def Let_def example_world_def empty_state_def g_file_test_def
      ml_loge_def emit_def)

text \<open>
  A path that exists, is no regular file and can be read (a named pipe, a device) is
  loaded and its records are registered.
\<close>

lemma special_file_descriptor_is_registered:
  "parse_json
       ((example_world [] [])
          \<lparr>access_F_OK := (\<lambda>p. p = ''/res/model_description.json''),
           json_parser_load_from_file :=
             (\<lambda>p. Inr (Some (JObj [(''name'', JStr ''m1''), (''model'', JStr ''m1.tflite'')])))\<rparr>)
       ''/res'' MLSVC_JSON_MODEL (Some ''app'') empty_state
     = \<lparr>registry = [''m1''],
        trace = [G_file_test ''/res/model_description.json''
                   {G_FILE_TEST_EXISTS, G_FILE_TEST_IS_REGULAR},
                 Json_parser_load_from_file ''/res/model_description.json'',
                 Svcdb_model_add ''m1'' ''m1.tflite'' False [] ''app'',
                 Log LOG_INFO ''The model with name '%s' is registered as version '%u'.''
                   [ArgS ''m1'', ArgU 1]]\<rparr>"
  by (simp add: parse_json_def Let_def example_world_def empty_state_def g_file_test_def
      JSON_NODE_HOLDS_ARRAY_def parse_json_loop_once json_node_get_object_def
      parse_json_model_def json_object_get_string_member_def is_true_flag_def or_empty_def
      call_svcdb_model_add_def ml_logi_def emit_def)

text \<open>
  An install of a package that ships the model descriptor only: the model is registered,
  the two absent descriptors stop nothing.
\<close>

lemma install_example_evaluated:
  "filter is_registry_call
     (trace (pkg_mgr_event_cb
        (example_world
           [(''/opt/usr/globalapps/app1/res/global/ai/model_description.json'',
             Inr (Some (JObj [(''name'', JStr ''m1''), (''model'', JStr ''m1.tflite''),
                              (''activate'', JStr ''true'')])))] [])
        ''rpk'' ''app1'' PACKAGE_MANAGER_EVENT_TYPE_INSTALL
        PACKAGE_MANAGER_EVENT_STATE_COMPLETED 100 0 empty_state))
   = [Svcdb_model_add ''m1'' ''m1.tflite'' True []
        (example_generator (app_info_root ''app1'' ''ai'' ''2''))]"
  by (simp add: pkg_mgr_event_cb_def install_completed_def destroy_pkg_info_def Let_def
      example_world_def empty_state_def PACKAGE_MANAGER_ERROR_NONE_def get_app_info_def
      parse_json_def g_file_test_def JSON_NODE_HOLDS_ARRAY_def parse_json_loop_once
      json_node_get_object_def parse_json_model_def json_object_get_string_member_def
      is_true_flag_def or_empty_def TOLOWER_def ISUPPER_def call_svcdb_model_add_def
      ml_logi_def ml_logw_def ml_loge_def emit_def)

section \<open>The events\<close>

lemma fold_ml_logi:
  "trace (fold (\<lambda>x. ml_logi fmt [ArgS x]) xs s) = trace s @ map (\<lambda>x. Log LOG_INFO fmt [ArgS x]) xs"
  "registry (fold (\<lambda>x. ml_logi fmt [ArgS x]) xs s) = registry s"
  by (induction xs arbitrary: s) simp_all

lemma echo_trace:
  "trace (pkg_mgr_echo_pkg_path_info w p s) =
     trace s @ G_file_test p {G_FILE_TEST_IS_DIR} #
       (if g_file_test w p {G_FILE_TEST_IS_DIR}
        then Log LOG_INFO ''package path: %s'' [ArgS p] # G_dir_open p #
               (case g_dir_read_names w p of
                  None \<Rightarrow> []
                | Some names \<Rightarrow> map (\<lambda>x. Log LOG_INFO ''- file: %s'' [ArgS x]) names)
        else [])"
  "registry (pkg_mgr_echo_pkg_path_info w p s) = registry s"
  by (simp_all add: pkg_mgr_echo_pkg_path_info_def Let_def fold_ml_logi split: option.splits)

lemma destroy_pkg_info_trace:
  "trace (destroy_pkg_info w h s) =
     trace s @ Package_info_destroy h #
       (if package_info_destroy w h \<noteq> PACKAGE_MANAGER_ERROR_NONE
        then [Log LOG_ERROR ''package_info_destroy failed: %d'' [ArgD (package_info_destroy w h)]]
        else [])"
  "registry (destroy_pkg_info w h s) = registry s"
  by (simp_all add: destroy_pkg_info_def Let_def)

lemma install_completed_frame:
  "trace (install_completed w n p s) = trace s @ acts_of (install_completed w n p) (registry s)"
  "registry (install_completed w n p s) = reg_of (install_completed w n p) (registry s)"
  unfolding acts_of_def [of "install_completed w n p"] reg_of_def [of "install_completed w n p"]
  by (simp_all add: install_completed_def Let_def case_prod_beta destroy_pkg_info_trace
      parse_json_frame split: option.splits)

text \<open>
  C7. A resource-package event that starts an uninstall or completes an update: the
  registry is as before, every call the handler makes is a log line or a look at the
  file system, none is a registry call, and the package's directory is tested for the
  listing.
\<close>

theorem uninstall_and_update_only_list:
  assumes "g_ascii_strcasecmp pkg_type ''rpk'' = 0"
    and "(event_type = PACKAGE_MANAGER_EVENT_TYPE_UNINSTALL
            \<and> event_state = PACKAGE_MANAGER_EVENT_STATE_STARTED)
         \<or> (event_type = PACKAGE_MANAGER_EVENT_TYPE_UPDATE
            \<and> event_state = PACKAGE_MANAGER_EVENT_STATE_COMPLETED)"
  shows "registry (pkg_mgr_event_cb w pkg_type package_name event_type event_state progress error s)
           = registry s
     \<and> (\<exists>acts. trace (pkg_mgr_event_cb w pkg_type package_name event_type event_state progress
                         error s) = trace s @ acts
           \<and> list_all is_observation acts
           \<and> filter is_registry_call acts = []
           \<and> G_file_test (''/opt/usr/globalapps/'' @ package_name @ ''/res/global'')
                {G_FILE_TEST_IS_DIR} \<in> set acts)"
proof -
  let ?p = "''/opt/usr/globalapps/'' @ package_name @ ''/res/global''"
  let ?s' = "pkg_mgr_event_cb w pkg_type package_name event_type event_state progress error s"
  let ?listing = "G_file_test ?p {G_FILE_TEST_IS_DIR} #
       (if g_file_test w ?p {G_FILE_TEST_IS_DIR}
        then Log LOG_INFO ''package path: %s'' [ArgS ?p] # G_dir_open ?p #
               (case g_dir_read_names w ?p of
                  None \<Rightarrow> []
                | Some names \<Rightarrow> map (\<lambda>x. Log LOG_INFO ''- file: %s'' [ArgS x]) names)
        else [])"
  have obs: "list_all is_observation ?listing"
    by (simp add: list_all_iff split: option.splits) auto
  have noreg: "filter is_registry_call ?listing = []"
    by (simp add: filter_empty_conv split: option.splits) auto
  have reg: "registry ?s' = registry s"
    using assms by (auto simp: pkg_mgr_event_cb_def Let_def echo_trace)
  obtain l1 l2 where tr: "trace ?s' = trace s @ ([l1, l2] @ ?listing)"
      "is_observation l1" "is_observation l2" "\<not> is_registry_call l1" "\<not> is_registry_call l2"
    using assms by (auto simp: pkg_mgr_event_cb_def Let_def echo_trace)
  have "list_all is_observation ([l1, l2] @ ?listing)"
    using obs tr(2,3) by simp
  moreover have "filter is_registry_call ([l1, l2] @ ?listing) = []"
    using noreg tr(4,5) by simp
  moreover have "G_file_test ?p {G_FILE_TEST_IS_DIR} \<in> set ([l1, l2] @ ?listing)"
    by simp
  ultimately show ?thesis using reg tr(1) by blast
qed

theorem uninstall_and_update_only_list_witness:
  "registry (pkg_mgr_event_cb
               (example_world [] [(''/opt/usr/globalapps/app1/res/global'', [''ai''])])
               ''rpk'' ''app1'' PACKAGE_MANAGER_EVENT_TYPE_UNINSTALL
               PACKAGE_MANAGER_EVENT_STATE_STARTED 0 0 empty_state)
           = registry empty_state
     \<and> (\<exists>acts. trace (pkg_mgr_event_cb
                         (example_world [] [(''/opt/usr/globalapps/app1/res/global'', [''ai''])])
                         ''rpk'' ''app1'' PACKAGE_MANAGER_EVENT_TYPE_UNINSTALL
                         PACKAGE_MANAGER_EVENT_STATE_STARTED 0 0 empty_state)
                  = trace empty_state @ acts
           \<and> list_all is_observation acts
           \<and> filter is_registry_call acts = []
           \<and> G_file_test (''/opt/usr/globalapps/'' @ ''app1'' @ ''/res/global'')
                {G_FILE_TEST_IS_DIR} \<in> set acts)"
  by (rule uninstall_and_update_only_list) (simp_all add: TOLOWER_def ISUPPER_def)

text \<open>
  C2. An install has completed and a query of the package's metadata fails. Then the
  registry is as before, and among the calls the handler makes there is no registry call
  and no access to a file: no descriptor is tested or loaded.
\<close>

theorem failed_lookup_touches_nothing:
  assumes "event_type = PACKAGE_MANAGER_EVENT_TYPE_INSTALL"
    and "event_state = PACKAGE_MANAGER_EVENT_STATE_COMPLETED"
    and "lookup_fails w package_name"
  shows "registry (pkg_mgr_event_cb w pkg_type package_name event_type event_state progress error s)
           = registry s
     \<and> (\<exists>acts. trace (pkg_mgr_event_cb w pkg_type package_name event_type event_state progress
                         error s) = trace s @ acts
           \<and> filter is_registry_call acts = []
           \<and> filter is_file_access acts = [])"
proof -
  let ?s' = "pkg_mgr_event_cb w pkg_type package_name event_type event_state progress error s"
  have reg: "registry ?s' = registry s"
    using assms
    by (auto simp: pkg_mgr_event_cb_def install_completed_def lookup_fails_def Let_def
        case_prod_beta destroy_pkg_info_trace)
  have "\<exists>acts. trace ?s' = trace s @ acts \<and> filter is_registry_call acts = []
           \<and> filter is_file_access acts = []"
    using assms
    by (auto simp: pkg_mgr_event_cb_def install_completed_def lookup_fails_def Let_def
        case_prod_beta destroy_pkg_info_trace)
  with reg show ?thesis by blast
qed

theorem failed_lookup_touches_nothing_witness:
  "registry (pkg_mgr_event_cb
               ((example_world [] [])\<lparr>package_info_get_res_type := (\<lambda>h. (- 1, []))\<rparr>)
               ''rpk'' ''app1'' PACKAGE_MANAGER_EVENT_TYPE_INSTALL
               PACKAGE_MANAGER_EVENT_STATE_COMPLETED 100 0 empty_state)
           = registry empty_state
     \<and> (\<exists>acts. trace (pkg_mgr_event_cb
                         ((example_world [] [])\<lparr>package_info_get_res_type := (\<lambda>h. (- 1, []))\<rparr>)
                         ''rpk'' ''app1'' PACKAGE_MANAGER_EVENT_TYPE_INSTALL
                         PACKAGE_MANAGER_EVENT_STATE_COMPLETED 100 0 empty_state)
                  = trace empty_state @ acts
           \<and> filter is_registry_call acts = []
           \<and> filter is_file_access acts = [])"
  by (rule failed_lookup_touches_nothing)
     (simp_all add: lookup_fails_def example_world_def PACKAGE_MANAGER_ERROR_NONE_def)

lemma rpk_forms:
  "(\<exists>a b c. s = [a, b, c] \<and> a \<in> {CHR ''r'', CHR ''R''} \<and> b \<in> {CHR ''p'', CHR ''P''}
        \<and> c \<in> {CHR ''k'', CHR ''K''})
   = (s \<in> {''rpk'', ''rpK'', ''rPk'', ''rPK'', ''Rpk'', ''RpK'', ''RPk'', ''RPK''})"
  by auto

text \<open>
  C9. An event that is no resource copy, with a C string as category tag. When the tag
  is "rpk" in any mix of cases, the handler does what it does for "rpk": the registry
  afterwards and every call after the first log line (which prints the tag) are the
  same. When it is any other tag, the handler writes that log line and returns: no
  file is looked at and the registry is as before.
\<close>

theorem category_filter_ignores_case:
  assumes "c_string pkg_type"
    and "event_type \<noteq> PACKAGE_MANAGER_EVENT_TYPE_RES_COPY"
  shows "(pkg_type \<in> {''rpk'', ''rpK'', ''rPk'', ''rPK'', ''Rpk'', ''RpK'', ''RPk'', ''RPK''} \<longrightarrow>
            registry (pkg_mgr_event_cb w pkg_type package_name event_type event_state progress
                        error s)
              = registry (pkg_mgr_event_cb w ''rpk'' package_name event_type event_state progress
                            error s)
            \<and> drop (Suc (length (trace s)))
                 (trace (pkg_mgr_event_cb w pkg_type package_name event_type event_state progress
                           error s))
              = drop (Suc (length (trace s)))
                  (trace (pkg_mgr_event_cb w ''rpk'' package_name event_type event_state progress
                            error s)))
       \<and> (pkg_type \<notin> {''rpk'', ''rpK'', ''rPk'', ''rPK'', ''Rpk'', ''RpK'', ''RPk'', ''RPK''} \<longrightarrow>
            registry (pkg_mgr_event_cb w pkg_type package_name event_type event_state progress
                        error s) = registry s
            \<and> trace (pkg_mgr_event_cb w pkg_type package_name event_type event_state progress
                        error s)
              = trace s @ [Log LOG_INFO
                  ''type: %s, package_name: %s, event_type: %d, event_state: %d''
                  [ArgS pkg_type, ArgS package_name, ArgType event_type, ArgState event_state]])"
proof -
  have iff: "(g_ascii_strcasecmp pkg_type ''rpk'' = 0)
      = (pkg_type \<in> {''rpk'', ''rpK'', ''rPk'', ''rPK'', ''Rpk'', ''RpK'', ''RPk'', ''RPK''})"
    using strcasecmp_rpk_iff [OF assms(1)] rpk_forms [of pkg_type] by simp
  have rpk: "g_ascii_strcasecmp ''rpk'' ''rpk'' = 0"
    by (simp add: TOLOWER_def ISUPPER_def)
  show ?thesis
  proof (cases "g_ascii_strcasecmp pkg_type ''rpk'' = 0")
    case True
    then have "registry (pkg_mgr_event_cb w pkg_type package_name event_type event_state progress
                        error s)
              = registry (pkg_mgr_event_cb w ''rpk'' package_name event_type event_state progress
                            error s)"
      using assms(2) rpk
      by (simp add: pkg_mgr_event_cb_def Let_def install_completed_frame echo_trace)
    moreover from True have "drop (Suc (length (trace s)))
                 (trace (pkg_mgr_event_cb w pkg_type package_name event_type event_state progress
                           error s))
              = drop (Suc (length (trace s)))
                  (trace (pkg_mgr_event_cb w ''rpk'' package_name event_type event_state progress
                            error s))"
      using assms(2) rpk
      by (simp add: pkg_mgr_event_cb_def Let_def install_completed_frame echo_trace)
    ultimately show ?thesis using True iff by simp
  next
    case False
    then show ?thesis
      using assms(2) iff by (simp add: pkg_mgr_event_cb_def Let_def)
  qed
qed

theorem category_filter_ignores_case_witness:
  "(registry (pkg_mgr_event_cb (example_world [] []) ''RPK'' ''app1''
                PACKAGE_MANAGER_EVENT_TYPE_INSTALL PACKAGE_MANAGER_EVENT_STATE_COMPLETED 100 0
                empty_state)
      = registry (pkg_mgr_event_cb (example_world [] []) ''rpk'' ''app1''
                PACKAGE_MANAGER_EVENT_TYPE_INSTALL PACKAGE_MANAGER_EVENT_STATE_COMPLETED 100 0
                empty_state)
    \<and> drop (Suc (length (trace empty_state)))
         (trace (pkg_mgr_event_cb (example_world [] []) ''RPK'' ''app1''
                PACKAGE_MANAGER_EVENT_TYPE_INSTALL PACKAGE_MANAGER_EVENT_STATE_COMPLETED 100 0
                empty_state))
      = drop (Suc (length (trace empty_state)))
         (trace (pkg_mgr_event_cb (example_world [] []) ''rpk'' ''app1''
                PACKAGE_MANAGER_EVENT_TYPE_INSTALL PACKAGE_MANAGER_EVENT_STATE_COMPLETED 100 0
                empty_state)))
   \<and> registry (pkg_mgr_event_cb (example_world [] []) ''tpk'' ''app1''
                PACKAGE_MANAGER_EVENT_TYPE_INSTALL PACKAGE_MANAGER_EVENT_STATE_COMPLETED 100 0
                empty_state) = registry empty_state
   \<and> trace (pkg_mgr_event_cb (example_world [] []) ''tpk'' ''app1''
                PACKAGE_MANAGER_EVENT_TYPE_INSTALL PACKAGE_MANAGER_EVENT_STATE_COMPLETED 100 0
                empty_state)
      = trace empty_state @ [Log LOG_INFO
           ''type: %s, package_name: %s, event_type: %d, event_state: %d''
           [ArgS ''tpk'', ArgS ''app1'', ArgType PACKAGE_MANAGER_EVENT_TYPE_INSTALL,
            ArgState PACKAGE_MANAGER_EVENT_STATE_COMPLETED]]"
  using category_filter_ignores_case [of "''RPK''" PACKAGE_MANAGER_EVENT_TYPE_INSTALL
          "example_world [] []" "''app1''" PACKAGE_MANAGER_EVENT_STATE_COMPLETED 100 0 empty_state]
        category_filter_ignores_case [of "''tpk''" PACKAGE_MANAGER_EVENT_TYPE_INSTALL
          "example_world [] []" "''app1''" PACKAGE_MANAGER_EVENT_STATE_COMPLETED 100 0 empty_state]
  by (simp add: c_string_def)

section \<open>The app-info blob\<close>

text \<open>The reader of the example platform reads back what its generator writes.\<close>

lemma hex_value_digit: "n < 16 \<Longrightarrow> hex_value (hex_digit n) = Some n"
  by (auto simp: hex_value_def hex_digit_def of_char_of Let_def)

lemma hex_value_zero: "hex_value (CHR ''0'') = Some 0"
  by (simp add: hex_value_def)

lemma read_string_hex:
  assumes "n < 256"
  shows "read_string (CHR 0x5C # CHR ''u'' # CHR ''0'' # CHR ''0'' # hex_digit (n div 16)
                        # hex_digit (n mod 16) # rest)
     = map_option (\<lambda>(s, r). (char_of n # s, r)) (read_string rest)"
proof -
  have d1: "hex_value (hex_digit (n div 16)) = Some (n div 16)"
    using assms by (intro hex_value_digit) arith
  have d2: "hex_value (hex_digit (n mod 16)) = Some (n mod 16)"
    by (intro hex_value_digit) simp
  have whole: "16 * (n div 16) + n mod 16 = n"
    by simp
  show ?thesis
    by (simp add: hex_value_zero d1 d2 whole)
qed

lemma read_string_escape_char:
  "read_string (escape_char c @ rest) = map_option (\<lambda>(s, r). (c # s, r)) (read_string rest)"
proof (cases "c = CHR 0x5C \<or> c = CHR 0x22")
  case True
  then show ?thesis by (auto simp: escape_char_def simple_escape_def)
next
  case plain: False
  show ?thesis
  proof (cases "(0 < (of_char c :: nat) \<and> (of_char c :: nat) < 0x1f) \<or> (of_char c :: nat) = 0x7f")
    case ctl: True
    show ?thesis
    proof (cases "c \<in> {CHR 0x08, CHR 0x0C, CHR 0x0A, CHR 0x0D, CHR 0x09}")
      case True
      then show ?thesis by (auto simp: escape_char_def simple_escape_def)
    next
      case other: False
      have e: "escape_char c = [CHR 0x5C, CHR ''u'', CHR ''0'', CHR ''0'',
                  hex_digit ((of_char c :: nat) div 16), hex_digit ((of_char c :: nat) mod 16)]"
        using plain ctl other unfolding escape_char_def by (simp only: if_True if_False) auto
      show ?thesis
        unfolding e using read_string_hex [of "of_char c" rest]
        by (simp only: nat_of_char_less_256 char_of_char append_Cons append_Nil)
    qed
  next
    case False
    have e: "escape_char c = [c]"
      using plain False unfolding escape_char_def by (simp only: if_False)
    show ?thesis
      unfolding e using plain by simp
  qed
qed

lemma read_string_escape:
  "read_string (json_strescape s @ CHR 0x22 # rest) = Some (s, rest)"
  by (induction s) (simp_all add: json_strescape_def read_string_escape_char)

lemma read_member_step:
  "read_members (Suc fuel)
      (CHR 0x0A # member_text (k, JStr v) @ tail)
   = (case expect (CHR '','') tail of
        Some t6 \<Rightarrow> map_option ((#) (k, JStr v)) (read_members fuel t6)
      | None \<Rightarrow>
          (case expect (CHR ''}'') tail of
             None \<Rightarrow> None
           | Some t6 \<Rightarrow> if dropWhile is_space t6 = [] then Some [(k, JStr v)] else None))"
  by (simp add: member_text_def expect_def is_space_def read_string_escape)

lemma read_members_text:
  "members \<noteq> [] \<Longrightarrow> length members \<le> fuel \<Longrightarrow>
     read_members fuel
       (CHR 0x0A # members_text (map (\<lambda>m. (fst m, JStr (snd m))) members) @ [CHR 0x0A, CHR ''}''])
     = Some (map (\<lambda>m. (fst m, JStr (snd m))) members)"
proof (induction members arbitrary: fuel)
  case Nil
  then show ?case by simp
next
  case (Cons m members)
  obtain f where f: "fuel = Suc f" using Cons.prems(2) by (cases fuel) auto
  show ?case
  proof (cases members)
    case Nil
    then show ?thesis
      using read_member_step [of f "fst m" "snd m" "[CHR 0x0A, CHR ''}'']"]
      by (simp add: f expect_def is_space_def del: read_members.simps)
  next
    case (Cons m' ms)
    have len: "length members \<le> f" using Cons.prems(2) f by simp
    have ne: "members \<noteq> []" using Cons by simp
    have step: "read_members (Suc f)
        (CHR 0x0A # member_text (fst m, JStr (snd m))
           @ (CHR '','' # CHR 0x0A # members_text (map (\<lambda>m. (fst m, JStr (snd m))) members)
                @ [CHR 0x0A, CHR ''}'']))
      = map_option ((#) (fst m, JStr (snd m)))
          (read_members f (CHR 0x0A # members_text (map (\<lambda>m. (fst m, JStr (snd m))) members)
                @ [CHR 0x0A, CHR ''}'']))"
      using read_member_step [of f "fst m" "snd m"
              "CHR '','' # CHR 0x0A # members_text (map (\<lambda>m. (fst m, JStr (snd m))) members)
                 @ [CHR 0x0A, CHR ''}'']"]
      by (simp add: expect_def is_space_def del: read_members.simps)
    show ?thesis
      using step Cons.IH [OF ne len] Cons
      by (simp add: f del: read_members.simps)
  qed
qed

lemma length_members_text:
  "length members \<le> length (members_text (map (\<lambda>m. (fst m, JStr (snd m))) members))"
proof (induction members)
  case Nil
  then show ?case by simp
next
  case (Cons m members)
  then show ?case by (cases members) (simp_all add: member_text_def)
qed

lemma example_reader_inverts_generator:
  "parser_inverts_generator example_generator example_parser"
  unfolding parser_inverts_generator_def
proof
  fix members :: "(string \<times> string) list"
  show "example_parser (example_generator (string_object members))
          = Inr (Some (string_object members))"
  proof (cases "members = []")
    case True
    then show ?thesis
      by (simp add: string_object_def example_generator_def example_parser_def expect_def
          is_space_def)
  next
    case False
    let ?ms = "map (\<lambda>m. (fst m, JStr (snd m))) members"
    let ?t = "CHR 0x0A # members_text ?ms @ [CHR 0x0A, CHR ''}'']"
    have fuel: "length members \<le> length ?t"
      using length_members_text [of members] by simp
    have first: "expect (CHR ''}'') ?t = None"
    proof (cases members)
      case Nil
      with False show ?thesis by simp
    next
      case (Cons m ms)
      then show ?thesis
        by (cases ms) (simp_all add: expect_def is_space_def member_text_def)
    qed
    have "read_members (length ?t) ?t = Some ?ms"
      by (rule read_members_text [OF False fuel])
    with False first show ?thesis
      by (simp add: string_object_def example_generator_def example_parser_def expect_def
          is_space_def)
  qed
qed

lemma example_generator_evaluated:
  "example_generator (app_info_root ''pkgA'' ''rpk'' ''1.0'') = example_app_info_text"
  by (simp add: example_generator_def app_info_root_def member_text_def json_strescape_def
      escape_char_def example_app_info_text_def)


lemma app_info_root_string_object:
  "app_info_root p t v =
     string_object [(''is_rpk'', ''T''), (''app_id'', p), (''res_type'', t), (''res_version'', v)]"
  by (simp add: app_info_root_def string_object_def)



text \<open>
  On the example platform the fields come back for every package name, resource type
  and resource version, also for strings with quotes, backslashes and control characters.
\<close>

lemma example_round_trip_all:
  "example_parser (get_app_info (example_world files dirs) p t v)
     = Inr (Some (app_info_root p t v))"
  "json_object_get_string_member (json_node_get_object (Some (app_info_root p t v))) ''app_id''
     = Some p"
  "json_object_get_string_member (json_node_get_object (Some (app_info_root p t v))) ''res_type''
     = Some t"
  "json_object_get_string_member (json_node_get_object (Some (app_info_root p t v)))
       ''res_version'' = Some v"
  using example_reader_inverts_generator
  by (simp add: get_app_info_def example_world_def parser_inverts_generator_def
        app_info_root_string_object)
     (simp_all add: app_info_root_def json_node_get_object_def
        json_object_get_string_member_def)

end
